theory Spec2Isabelle
  imports Complex_Main
begin

section \<open>JavaScript numbers\<close>

text \<open>
  Every numeric value of the platform is a JavaScript Number, an IEEE 754 binary64
  value.  A finite double is represented by the rational number it denotes; the two
  infinities and NaN are separate constructors.  The sign of zero is not tracked (the
  modelled code never divides by a negative zero).  Each arithmetic operation computes
  the exact rational result and rounds it to the nearest double, ties to even, as the
  hardware does.
\<close>

datatype number = Num rat | PosInfinity | NegInfinity | NaN

text \<open>\<open>nlog2 n\<close> is \<open>\<lfloor>log\<^sub>2 n\<rfloor>\<close> for \<open>n \<ge> 1\<close>.\<close>

function nlog2 :: "int \<Rightarrow> int" where
  "nlog2 n = (if n < 2 then 0 else 1 + nlog2 (n div 2))"
  by pat_completeness auto
termination
  by (relation "measure nat") auto

declare nlog2.simps [simp del]

definition pow2 :: "int \<Rightarrow> rat" where
  "pow2 k = (if 0 \<le> k then 2 ^ nat k else 1 / 2 ^ nat (- k))"

text \<open>For \<open>x > 0\<close>, \<open>floor_log2 x\<close> is the exponent \<open>e\<close> with \<open>2\<^sup>e \<le> x < 2\<^sup>e\<^sup>+\<^sup>1\<close>.\<close>

definition floor_log2 :: "rat \<Rightarrow> int" where
  "floor_log2 x =
     (if 1 \<le> x then nlog2 \<lfloor>x\<rfloor>
      else let n = \<lceil>1 / x\<rceil> in if n \<le> 1 then 0 else - (nlog2 (n - 1) + 1))"

definition round_half_even :: "rat \<Rightarrow> int" where
  "round_half_even x =
     (let f = \<lfloor>x\<rfloor>; d = x - of_int f
      in if d < 1 / 2 then f
         else if 1 / 2 < d then f + 1
         else if even f then f else f + 1)"

text \<open>
  Rounding of a positive rational to binary64: 53 significant bits, the spacing of the
  subnormal range below \<open>2\<^sup>-\<^sup>1\<^sup>0\<^sup>2\<^sup>2\<close>, overflow to infinity from \<open>2\<^sup>1\<^sup>0\<^sup>2\<^sup>4\<close> on.
\<close>

definition fl_pos :: "rat \<Rightarrow> number" where
  "fl_pos x =
     (let e = floor_log2 x;
          qe = (if e < - 1022 then - 1074 else e - 52);
          r = of_int (round_half_even (x / pow2 qe)) * pow2 qe
      in if pow2 1024 \<le> r then PosInfinity else Num r)"

fun neg :: "number \<Rightarrow> number" where
  "neg (Num x) = Num (- x)"
| "neg PosInfinity = NegInfinity"
| "neg NegInfinity = PosInfinity"
| "neg NaN = NaN"

definition fl :: "rat \<Rightarrow> number" where
  "fl x = (if x = 0 then Num 0 else if 0 < x then fl_pos x else neg (fl_pos (- x)))"

fun num_add :: "number \<Rightarrow> number \<Rightarrow> number" where
  "num_add (Num x) (Num y) = fl (x + y)"
| "num_add NaN _ = NaN"
| "num_add _ NaN = NaN"
| "num_add PosInfinity NegInfinity = NaN"
| "num_add NegInfinity PosInfinity = NaN"
| "num_add PosInfinity _ = PosInfinity"
| "num_add _ PosInfinity = PosInfinity"
| "num_add NegInfinity _ = NegInfinity"
| "num_add _ NegInfinity = NegInfinity"

definition num_sub :: "number \<Rightarrow> number \<Rightarrow> number" where
  "num_sub a b = num_add a (neg b)"

fun num_mul :: "number \<Rightarrow> number \<Rightarrow> number" where
  "num_mul (Num x) (Num y) = fl (x * y)"
| "num_mul NaN _ = NaN"
| "num_mul _ NaN = NaN"
| "num_mul (Num x) i = (if x = 0 then NaN else if 0 < x then i else neg i)"
| "num_mul i (Num y) = (if y = 0 then NaN else if 0 < y then i else neg i)"
| "num_mul PosInfinity i = i"
| "num_mul NegInfinity i = neg i"

text \<open>Division; a divisor that is zero is the positive zero.\<close>

fun num_div :: "number \<Rightarrow> number \<Rightarrow> number" where
  "num_div (Num x) (Num y) =
     (if y = 0 then (if x = 0 then NaN else if 0 < x then PosInfinity else NegInfinity)
      else fl (x / y))"
| "num_div NaN _ = NaN"
| "num_div _ NaN = NaN"
| "num_div (Num x) _ = Num 0"
| "num_div i (Num y) = (if 0 \<le> y then i else neg i)"
| "num_div _ _ = NaN"

fun num_lt :: "number \<Rightarrow> number \<Rightarrow> bool" where
  "num_lt (Num x) (Num y) = (x < y)"
| "num_lt NaN _ = False"
| "num_lt _ NaN = False"
| "num_lt _ NegInfinity = False"
| "num_lt NegInfinity _ = True"
| "num_lt PosInfinity _ = False"
| "num_lt _ PosInfinity = True"

fun num_le :: "number \<Rightarrow> number \<Rightarrow> bool" where
  "num_le (Num x) (Num y) = (x \<le> y)"
| "num_le NaN _ = False"
| "num_le _ NaN = False"
| "num_le NegInfinity _ = True"
| "num_le _ PosInfinity = True"
| "num_le _ _ = False"

definition num_gt :: "number \<Rightarrow> number \<Rightarrow> bool" where
  "num_gt a b = num_lt b a"

definition num_ge :: "number \<Rightarrow> number \<Rightarrow> bool" where
  "num_ge a b = num_le b a"

text \<open>\<open>isqrt n\<close> is \<open>\<lfloor>\<surd>n\<rfloor>\<close>.\<close>

function isqrt :: "int \<Rightarrow> int" where
  "isqrt n =
     (if n < 1 then 0
      else let r = 2 * isqrt (n div 4) in if (r + 1) * (r + 1) \<le> n then r + 1 else r)"
  by pat_completeness auto
termination
  by (relation "measure nat") auto

declare isqrt.simps [simp del]

text \<open>
  \<open>Math.sqrt\<close> of a positive double, correctly rounded: with \<open>e = \<lfloor>log\<^sub>2 \<surd>x\<rfloor>\<close> the result
  is the multiple of \<open>2\<^sup>e\<^sup>-\<^sup>5\<^sup>2\<close> nearest to \<open>\<surd>x\<close>.  The root of a double is never
  subnormal and never overflows.
\<close>

definition sqrt_pos :: "rat \<Rightarrow> number" where
  "sqrt_pos x =
     (let qe = floor_log2 x div 2 - 52;
          t = x / pow2 (2 * qe);
          n = isqrt \<lfloor>t\<rfloor>;
          h = (of_int n + 1 / 2) * (of_int n + 1 / 2);
          m = (if t < h then n else if h < t then n + 1 else if even n then n else n + 1)
      in Num (of_int m * pow2 qe))"

fun Math_sqrt :: "number \<Rightarrow> number" where
  "Math_sqrt (Num x) = (if x < 0 then NaN else if x = 0 then Num 0 else sqrt_pos x)"
| "Math_sqrt PosInfinity = PosInfinity"
| "Math_sqrt NegInfinity = NaN"
| "Math_sqrt NaN = NaN"




text \<open>
  \<open>Math.round\<close>: the nearest integer, a tie going up.  A double of magnitude \<open>2\<^sup>5\<^sup>2\<close> or
  more is an integer already, so the result is again a double.
\<close>

fun Math_round :: "number \<Rightarrow> number" where
  "Math_round (Num x) = Num (of_int \<lfloor>x + 1 / 2\<rfloor>)"
| "Math_round i = i"

section \<open>TopicMastery (src/backend/models/TopicMastery.js)\<close>

datatype classification = Weak | Medium | Strong

text \<open>An entry of \<open>recentQuizzes\<close>.\<close>

record recent_quiz =
  rq_quizId :: string
  rq_score :: number
  rq_attemptedAt :: int
  rq_difficulty :: string
  rq_timeSpent :: number

text \<open>
  The fields of the schema that the methods read or write.  Dates are millisecond
  timestamps; a date that is not set is \<open>None\<close>.  \<open>quizAttempts\<close> is a counter that
  starts at 0 and only grows by 1, so it is an integer.
\<close>

record topic_mastery =
  topicName :: string
  masteryScore :: number
  classification :: classification
  quizAttempts :: int
  averageQuizScore :: number
  highestQuizScore :: number
  lowestQuizScore :: number
  recentQuizzes :: "recent_quiz list"
  firstAttemptAt :: "int option"
  lastStudiedAt :: "int option"

text \<open>The pre-save hook: the only code that writes \<open>classification\<close>.\<close>

definition pre_save :: "topic_mastery \<Rightarrow> topic_mastery" where
  "pre_save this =
     (if num_lt (masteryScore this) (Num 40) then this\<lparr>classification := Weak\<rparr>
      else if num_lt (masteryScore this) (Num 75) then this\<lparr>classification := Medium\<rparr>
      else this\<lparr>classification := Strong\<rparr>)"

definition recentWeight :: number where
  "recentWeight = fl (7 / 10)"

definition historicalWeight :: number where
  "historicalWeight = fl (3 / 10)"

text \<open>\<open>recentQuizzes.reduce((sum, q) => sum + q.score, 0)\<close>\<close>

definition totalScore :: "recent_quiz list \<Rightarrow> number" where
  "totalScore qs = foldl (\<lambda>sum q. num_add sum (rq_score q)) (Num 0) qs"

text \<open>
  \<open>updateMasteryFromQuiz(quizScore, quizId, difficulty, timeSpent)\<close>; the argument \<open>now\<close>
  is the clock value that the calls of \<open>new Date()\<close> return.
\<close>

definition updateMasteryFromQuiz ::
  "topic_mastery \<Rightarrow> number \<Rightarrow> string \<Rightarrow> string \<Rightarrow> number \<Rightarrow> int \<Rightarrow> topic_mastery" where
  "updateMasteryFromQuiz this quizScore quizId difficulty timeSpent now =
     (let attempts = quizAttempts this + 1;
          pushed = recentQuizzes this @
            [\<lparr>rq_quizId = quizId, rq_score = quizScore, rq_attemptedAt = now,
              rq_difficulty = difficulty, rq_timeSpent = timeSpent\<rparr>];
          recent = (if 10 < length pushed then tl pushed else pushed);
          first = (if attempts = 1 then Some now else firstAttemptAt this);
          highest0 = (if attempts = 1 then quizScore else highestQuizScore this);
          lowest0 = (if attempts = 1 then quizScore else lowestQuizScore this);
          highest = (if num_gt quizScore highest0 then quizScore else highest0);
          lowest = (if num_lt quizScore lowest0 then quizScore else lowest0);
          average = Math_round (num_div (totalScore recent) (Num (of_nat (length recent))));
          mastery = Math_round (num_add (num_mul average recentWeight)
                                        (num_mul (masteryScore this) historicalWeight))
      in this\<lparr>quizAttempts := attempts, recentQuizzes := recent, firstAttemptAt := first,
              highestQuizScore := highest, lowestQuizScore := lowest,
              averageQuizScore := average, masteryScore := mastery,
              lastStudiedAt := Some now\<rparr>)"

text \<open>
  \<open>new TopicMastery({userId, courseId, topicName})\<close>: every other field takes its schema
  default.
\<close>

definition new_TopicMastery :: "string \<Rightarrow> topic_mastery" where
  "new_TopicMastery name =
     \<lparr>topicName = name, masteryScore = Num 0, classification = Weak, quizAttempts = 0,
      averageQuizScore = Num 0, highestQuizScore = Num 0, lowestQuizScore = Num 0,
      recentQuizzes = [], firstAttemptAt = None, lastStudiedAt = None\<rparr>"

text \<open>The arguments of one call of \<open>updateMasteryFromQuiz\<close>, with its clock value.\<close>

record quiz_result =
  qr_score :: number
  qr_quizId :: string
  qr_difficulty :: string
  qr_timeSpent :: number
  qr_now :: int

text \<open>
  The handler of \<open>POST /learning/topic-mastery/update\<close> on a record it has loaded:
  \<open>mastery.updateMasteryFromQuiz(...)\<close>, then \<open>mastery.save()\<close>, which runs the pre-save
  hook.  Schema validation, which can only refuse a save, is not modelled.
\<close>

definition recordQuizResult :: "topic_mastery \<Rightarrow> quiz_result \<Rightarrow> topic_mastery" where
  "recordQuizResult this r =
     pre_save (updateMasteryFromQuiz this (qr_score r) (qr_quizId r) (qr_difficulty r)
                 (qr_timeSpent r) (qr_now r))"

definition recent_of :: "quiz_result \<Rightarrow> recent_quiz" where
  "recent_of r =
     \<lparr>rq_quizId = qr_quizId r, rq_score = qr_score r, rq_attemptedAt = qr_now r,
      rq_difficulty = qr_difficulty r, rq_timeSpent = qr_timeSpent r\<rparr>"

text \<open>
  The records that the routes can store: one created by a handler and saved, or a stored
  one updated by a quiz result and saved.
\<close>

inductive stored :: "topic_mastery \<Rightarrow> bool" where
  created: "stored (pre_save (new_TopicMastery name))"
| first_result: "stored (recordQuizResult (new_TopicMastery name) r)"
| updated: "stored this \<Longrightarrow> stored (recordQuizResult this r)"

text \<open>What is left of a list that is cut from the front down to ten elements.\<close>

definition last10 :: "'a list \<Rightarrow> 'a list" where
  "last10 xs = drop (length xs - 10) xs"

subsection \<open>The score formula as the specification words it\<close>

text \<open>
  \<open>round(0.7 \<times> averageQuizScore + 0.3 \<times> previous masteryScore)\<close> in exact arithmetic, for
  an average and a previous score that are integers; a tie rounds up, as \<open>Math.round\<close>
  does.
\<close>

definition mastery_formula_spec :: "int \<Rightarrow> int \<Rightarrow> int" where
  "mastery_formula_spec avg prev = \<lfloor>7 / 10 * of_int avg + 3 / 10 * of_int prev + 1 / 2 :: rat\<rfloor>"

text \<open>The exact blend lies halfway between two integers.\<close>

definition blend_halfway :: "int \<Rightarrow> int \<Rightarrow> bool" where
  "blend_halfway avg prev \<longleftrightarrow> (7 * avg + 3 * prev) mod 10 = 5"

section \<open>AdaptiveQuiz (the model in src/unnamed/part_002)\<close>

text \<open>\<open>Array.prototype.indexOf\<close>: the first position of the value, \<open>-1\<close> when it is absent.\<close>

fun indexOf :: "'a list \<Rightarrow> 'a \<Rightarrow> int" where
  "indexOf [] v = - 1"
| "indexOf (x # xs) v =
     (if x = v then 0 else let i = indexOf xs v in if i < 0 then - 1 else i + 1)"

record answer =
  questionId :: string
  selectedAnswer :: string
  isCorrect :: bool

text \<open>
  An entry of \<open>userAttempts\<close>.  The two dates are the time values of the \<open>Date\<close>
  objects, \<open>NaN\<close> for an invalid date.
\<close>

record attempt =
  attemptNumber :: int
  startedAt :: number
  completedAt :: number
  timeSpent :: number
  score :: number
  attemptMaxScore :: number
  percentageScore :: number
  passed :: bool
  answers :: "answer list"
  correctAnswers :: int
  incorrectAnswers :: number
  unanswered :: int
  conceptsWithErrors :: "string list"
  nextDifficultyRecommended :: string

record adaptive_difficulty_config =
  enabled :: bool
  scorethresholdForLevelUp :: number
  scoreThresholdForLevelDown :: number

record performance_metrics =
  totalAttempts :: int
  bestScore :: number
  averageScore :: number
  lowestScore :: number
  passCount :: int
  failCount :: int
  passRate :: number
  averageTimeSpent :: number

record adaptive_quiz =
  difficulty :: string
  adaptiveDifficultyConfig :: adaptive_difficulty_config
  totalQuestions :: number
  maxScore :: number
  userAttempts :: "attempt list"
  performanceMetrics :: performance_metrics

definition difficultyProgression :: "string list" where
  "difficultyProgression = [''easy'', ''medium'', ''hard'']"

text \<open>
  \<open>calculateNextDifficulty()\<close>.  It reads the last element of \<open>userAttempts\<close>.  The index
  that \<open>indexOf\<close> returns is \<open>-1\<close>, 0, 1 or 2, so both array reads are in range.
\<close>

definition calculateNextDifficulty :: "adaptive_quiz \<Rightarrow> string" where
  "calculateNextDifficulty this =
     (if \<not> enabled (adaptiveDifficultyConfig this) \<or> length (userAttempts this) = 0
      then difficulty this
      else
        let lastAttempt = last (userAttempts this);
            score = percentageScore lastAttempt
        in if num_ge score (scorethresholdForLevelUp (adaptiveDifficultyConfig this)) then
             (let currentIndex = indexOf difficultyProgression (difficulty this)
              in if currentIndex < 2 then difficultyProgression ! nat (currentIndex + 1)
                 else ''hard'')
           else if num_lt score (scoreThresholdForLevelDown (adaptiveDifficultyConfig this)) then
             (let currentIndex = indexOf difficultyProgression (difficulty this)
              in if 0 < currentIndex then difficultyProgression ! nat (currentIndex - 1)
                 else ''easy'')
           else difficulty this)"

text \<open>The sum of a list of numbers by \<open>reduce((sum, s) => sum + s, 0)\<close>.\<close>

definition sum_numbers :: "number list \<Rightarrow> number" where
  "sum_numbers xs = foldl num_add (Num 0) xs"

text \<open>The argument of \<open>recordAttempt\<close>; \<open>conceptsWithErrors\<close> defaults to the empty list.\<close>

record attempt_data =
  ad_startedAt :: number
  ad_completedAt :: number
  ad_answers :: "answer list"
  ad_conceptsWithErrors :: "string list option"

text \<open>
  \<open>recordAttempt(attemptData)\<close>.  The attempt record is built, with the value of
  \<open>this.calculateNextDifficulty()\<close> in it, before it is pushed onto \<open>userAttempts\<close>.
\<close>

definition recordAttempt :: "adaptive_quiz \<Rightarrow> attempt_data \<Rightarrow> adaptive_quiz" where
  "recordAttempt this attemptData =
     (let timeSpent' = num_div (num_sub (ad_completedAt attemptData) (ad_startedAt attemptData))
                         (Num 60000);
          attemptNumber' = int (length (userAttempts this)) + 1;
          correctAnswers' = int (length (filter isCorrect (ad_answers attemptData)));
          score' = Math_round (num_mul (num_div (Num (of_int correctAnswers')) (totalQuestions this))
                                 (maxScore this));
          percentageScore' =
            Math_round (num_mul (num_div (Num (of_int correctAnswers')) (totalQuestions this))
                          (Num 100));
          passed' = num_ge percentageScore' (Num 70);
          attempt' =
            \<lparr>attemptNumber = attemptNumber',
             startedAt = ad_startedAt attemptData,
             completedAt = ad_completedAt attemptData,
             timeSpent = timeSpent',
             score = score',
             attemptMaxScore = maxScore this,
             percentageScore = percentageScore',
             passed = passed',
             answers = ad_answers attemptData,
             correctAnswers = correctAnswers',
             incorrectAnswers = num_sub (totalQuestions this) (Num (of_int correctAnswers')),
             unanswered = 0,
             conceptsWithErrors =
               (case ad_conceptsWithErrors attemptData of None \<Rightarrow> [] | Some cs \<Rightarrow> cs),
             nextDifficultyRecommended = calculateNextDifficulty this\<rparr>;
          attempts' = userAttempts this @ [attempt'];
          pm = performanceMetrics this;
          totalAttempts' = totalAttempts pm + 1;
          passCount' = (if passed' then passCount pm + 1 else passCount pm);
          failCount' = (if passed' then failCount pm else failCount pm + 1);
          passRate' = Math_round (num_mul (num_div (Num (of_int passCount'))
                                              (Num (of_int totalAttempts'))) (Num 100));
          bestScore' =
            (if totalAttempts' = 1 then score'
             else if num_gt score' (bestScore pm) then score' else bestScore pm);
          lowestScore' =
            (if totalAttempts' = 1 then score'
             else if num_lt score' (lowestScore pm) then score' else lowestScore pm);
          averageScore' =
            Math_round (num_div (sum_numbers (map score attempts'))
                          (Num (of_nat (length attempts'))));
          averageTimeSpent' =
            Math_round (num_div (sum_numbers (map timeSpent attempts'))
                          (Num (of_nat (length attempts'))))
      in this\<lparr>userAttempts := attempts',
              performanceMetrics :=
                \<lparr>totalAttempts = totalAttempts', bestScore = bestScore',
                 averageScore = averageScore', lowestScore = lowestScore',
                 passCount = passCount', failCount = failCount', passRate = passRate',
                 averageTimeSpent = averageTimeSpent'\<rparr>\<rparr>)"

text \<open>
  The difficulty step in the words of the specification, for a quiz whose difficulty is
  on the scale easy, medium, hard: one step up (clamped at hard) for a percentage at or
  above the level-up threshold, one step down (clamped at easy) for a percentage below
  the level-down threshold, the current difficulty otherwise.
\<close>

definition difficulty_step_spec :: "adaptive_quiz \<Rightarrow> number \<Rightarrow> string" where
  "difficulty_step_spec this pct =
     (if num_ge pct (scorethresholdForLevelUp (adaptiveDifficultyConfig this)) then
        (if difficulty this = ''easy'' then ''medium'' else ''hard'')
      else if num_lt pct (scoreThresholdForLevelDown (adaptiveDifficultyConfig this)) then
        (if difficulty this = ''hard'' then ''medium'' else ''easy'')
      else difficulty this)"

section \<open>LearningMemory (the second model in src/backend/models/Mastery.js)\<close>

text \<open>
  \<open>Array.prototype.findIndex\<close>, with \<open>None\<close> for \<open>-1\<close>.  \<open>Array.prototype.find\<close> returns
  the element at that position; the code then assigns to its fields, which changes the
  array at that position.
\<close>

fun findIndex :: "('a \<Rightarrow> bool) \<Rightarrow> 'a list \<Rightarrow> nat option" where
  "findIndex P [] = None"
| "findIndex P (x # xs) =
     (if P x then Some 0 else map_option Suc (findIndex P xs))"

text \<open>An entry of \<open>mistakeLog\<close>; \<open>mistakeId\<close> is the string of the ObjectId.\<close>

record mistake =
  mistakeId :: string
  topic :: string
  concept :: string
  mistakeDescription :: string
  correctAnswer :: string
  firstOccurredAt :: int
  lastOccurredAt :: int
  occurrenceCount :: int
  isCorrected :: bool
  correctedAt :: "int option"
  reviewedCount :: int

record plan_adjustment =
  adjustmentDate :: int
  reason :: string
  topicsAffected :: "string list"
  automatedBy :: string

text \<open>
  The parts of the document that the modelled methods and services touch.  The schema
  declares the element of \<open>copilotInteractions\<close> as an object with the key
  \<open>type: String\<close> beside \<open>topic\<close>, \<open>query\<close>, \<open>response\<close> and the others.  Mongoose reads
  an object with the key \<open>type\<close> as the declaration of a path of that type and the other
  keys as its options, so the path is an array of strings.  The elements of \<open>mistakeLog\<close>
  and \<open>planAdjustments\<close> have no such key and are sub-documents.
\<close>

record learning_memory =
  mistakeLog :: "mistake list"
  totalMistakesMade :: int
  totalMistakesCorrected :: int
  planAdjustments :: "plan_adjustment list"
  copilotInteractions :: "string list"

text \<open>
  The object literals that the services push onto \<open>copilotInteractions\<close>; a \<open>topic\<close> that
  the literal does not have is \<open>None\<close>.
\<close>

record copilot_interaction =
  interactionType :: string
  interactionTopic :: "string option"
  query :: string
  response :: string
  timestamp :: int

text \<open>
  \<open>memory.copilotInteractions.push(v)\<close>.  The array casts the value to the type of its
  elements before it appends it: a string stays as it is, and a plain object has no
  string form, so that the cast raises \<open>CastError\<close> and the array is left unchanged.
\<close>

datatype error = CastError

datatype js_value = JsString string | JsObject copilot_interaction

fun cast_String :: "js_value \<Rightarrow> error + string" where
  "cast_String (JsString s) = Inr s"
| "cast_String (JsObject obj) = Inl CastError"

definition push_copilotInteractions :: "learning_memory \<Rightarrow> js_value \<Rightarrow> error + learning_memory" where
  "push_copilotInteractions this v =
     (case cast_String v of
        Inl e \<Rightarrow> Inl e
      | Inr s \<Rightarrow> Inr (this\<lparr>copilotInteractions := copilotInteractions this @ [s]\<rparr>))"

record mistake_data =
  md_topic :: string
  md_concept :: string
  md_mistakeDescription :: string
  md_correctAnswer :: string

text \<open>
  \<open>recordMistake(mistakeData)\<close>; \<open>newId\<close> is the string of the fresh ObjectId and \<open>now\<close>
  the clock value.
\<close>

definition recordMistake ::
  "learning_memory \<Rightarrow> mistake_data \<Rightarrow> string \<Rightarrow> int \<Rightarrow> learning_memory" where
  "recordMistake this mistakeData newId now =
     (case findIndex (\<lambda>m. topic m = md_topic mistakeData \<and> concept m = md_concept mistakeData
                          \<and> \<not> isCorrected m) (mistakeLog this) of
        Some k \<Rightarrow>
          this\<lparr>mistakeLog := (mistakeLog this)
                 [k := (mistakeLog this ! k)
                    \<lparr>occurrenceCount := occurrenceCount (mistakeLog this ! k) + 1,
                     lastOccurredAt := now\<rparr>]\<rparr>
      | None \<Rightarrow>
          this\<lparr>mistakeLog := mistakeLog this @
                 [\<lparr>mistakeId = newId,
                   topic = md_topic mistakeData,
                   concept = md_concept mistakeData,
                   mistakeDescription = md_mistakeDescription mistakeData,
                   correctAnswer = md_correctAnswer mistakeData,
                   firstOccurredAt = now,
                   lastOccurredAt = now,
                   occurrenceCount = 1,
                   isCorrected = False,
                   correctedAt = None,
                   reviewedCount = 0\<rparr>],
               totalMistakesMade := totalMistakesMade this + 1\<rparr>)"

text \<open>An open entry for the topic and concept of \<open>d\<close>: what \<open>recordMistake\<close> looks for.\<close>

definition open_for :: "mistake_data \<Rightarrow> mistake \<Rightarrow> bool" where
  "open_for d m = (topic m = md_topic d \<and> concept m = md_concept d \<and> \<not> isCorrected m)"

text \<open>\<open>correctMistake(mistakeId)\<close>\<close>

definition correctMistake :: "learning_memory \<Rightarrow> string \<Rightarrow> int \<Rightarrow> learning_memory" where
  "correctMistake this mid now =
     (case findIndex (\<lambda>m. mistakeId m = mid) (mistakeLog this) of
        Some k \<Rightarrow>
          if \<not> isCorrected (mistakeLog this ! k) then
            this\<lparr>mistakeLog := (mistakeLog this)
                   [k := (mistakeLog this ! k)\<lparr>isCorrected := True, correctedAt := Some now\<rparr>],
                 totalMistakesCorrected := totalMistakesCorrected this + 1\<rparr>
          else this
      | None \<Rightarrow> this)"

text \<open>\<open>new LearningMemory({userId, courseId, metadata})\<close>: empty logs, counters at 0.\<close>

definition new_LearningMemory :: learning_memory where
  "new_LearningMemory =
     \<lparr>mistakeLog = [], totalMistakesMade = 0, totalMistakesCorrected = 0,
      planAdjustments = [], copilotInteractions = []\<rparr>"

section \<open>JavaScript strings\<close>

text \<open>
  A JavaScript string is a sequence of UTF-16 code units, and \<open>length\<close> counts them.  The
  model covers the strings whose code units are below 256: a \<open>char\<close> stands for the code
  unit of the same number.
\<close>

text \<open>
  White space in the sense of \<open>String.prototype.trim\<close> and of the regular expression class
  \<open>\s\<close>: tab, line feed, vertical tab, form feed, carriage return, space and the
  no-break space.
\<close>

definition is_space :: "char \<Rightarrow> bool" where
  "is_space c = ((of_char c :: nat) \<in> {9, 10, 11, 12, 13, 32, 160})"

text \<open>The character class \<open>[.!?]\<close>.\<close>

definition is_terminal :: "char \<Rightarrow> bool" where
  "is_terminal c = (c = CHR ''.'' \<or> c = CHR ''!'' \<or> c = CHR ''?'')"

definition trim :: "string \<Rightarrow> string" where
  "trim s = rev (dropWhile is_space (rev (dropWhile is_space s)))"

text \<open>
  \<open>toLowerCase\<close>: the letters A to Z and the capital letters of the Latin-1 supplement
  (U+00C0 to U+00DE without the multiplication sign U+00D7) move up by 32.
\<close>

definition lower_char :: "char \<Rightarrow> char" where
  "lower_char c =
     (let n = (of_char c :: nat)
      in if (65 \<le> n \<and> n \<le> 90) \<or> (192 \<le> n \<and> n \<le> 222 \<and> n \<noteq> 215)
         then char_of (n + 32) else c)"

definition toLowerCase :: "string \<Rightarrow> string" where
  "toLowerCase s = map lower_char s"

text \<open>
  \<open>s.split(/[C]+/)\<close> for a character class \<open>C\<close>: the pieces of \<open>s\<close> between the maximal runs
  of characters of \<open>C\<close>.  A run at the start or at the end of \<open>s\<close> gives an empty first or
  last piece, and the empty string gives one empty piece.  The second argument is the
  piece collected so far, the third tells whether the character before was in \<open>C\<close>.
\<close>

fun split_runs :: "(char \<Rightarrow> bool) \<Rightarrow> string \<Rightarrow> bool \<Rightarrow> string \<Rightarrow> string list" where
  "split_runs C piece in_run [] = [piece]"
| "split_runs C piece in_run (c # cs) =
     (if C c then
        (if in_run then split_runs C piece True cs
         else piece # split_runs C [] True cs)
      else split_runs C (piece @ [c]) False cs)"

definition split_on :: "(char \<Rightarrow> bool) \<Rightarrow> string \<Rightarrow> string list" where
  "split_on C s = split_runs C [] False s"

text \<open>\<open>hay.includes(needle)\<close>: \<open>needle\<close> occurs in \<open>hay\<close> as a contiguous piece.\<close>

fun js_includes :: "string \<Rightarrow> string \<Rightarrow> bool" where
  "js_includes [] needle = (needle = [])"
| "js_includes (c # cs) needle =
     (take (length needle) (c # cs) = needle \<or> js_includes cs needle)"

text \<open>\<open>xs.slice(0, k)\<close> for an integer \<open>k\<close>: a negative \<open>k\<close> counts from the end.\<close>

definition slice0 :: "int \<Rightarrow> 'a list \<Rightarrow> 'a list" where
  "slice0 k xs = (if 0 \<le> k then take (nat k) xs else take (nat (int (length xs) + k)) xs)"

section \<open>RAGService (the service in src/unnamed/part_004)\<close>

subsection \<open>chunkText\<close>

text \<open>
  The body of the \<open>for\<close> loop of \<open>chunkText\<close>, on the pair of \<open>chunks\<close> and
  \<open>currentChunk\<close>.
\<close>

definition chunk_step :: "int \<Rightarrow> string list \<times> string \<Rightarrow> string \<Rightarrow> string list \<times> string" where
  "chunk_step chunkSize st sentence =
     (case st of (chunks, currentChunk) \<Rightarrow>
        if int (length currentChunk + length sentence) < chunkSize
        then (chunks, currentChunk @ sentence @ ''. '')
        else (chunks @ [trim currentChunk], sentence @ ''. ''))"

text \<open>\<open>chunkText(text, chunkSize = 1000)\<close>; \<open>None\<close> is the omitted second argument.\<close>

definition chunkText :: "string \<Rightarrow> int option \<Rightarrow> string list" where
  "chunkText txt chunkSize' =
     (let chunkSize = (case chunkSize' of None \<Rightarrow> 1000 | Some k \<Rightarrow> k);
          sentences = split_on is_terminal txt;
          (chunks, currentChunk) = foldl (chunk_step chunkSize) ([], []) sentences
      in if currentChunk \<noteq> [] then chunks @ [trim currentChunk] else chunks)"

text \<open>
  The chunker in the words of its specification: the sentences are taken one by one;
  when the buffer with the next sentence would reach or exceed the target size, the
  buffer is flushed as a chunk and a new buffer starts with that sentence, otherwise
  the sentence joins the buffer; what remains is flushed at the end.  A sentence enters
  the buffer followed by a full stop and a space, and a chunk is the trimmed buffer.
\<close>

fun accumulate :: "nat \<Rightarrow> string \<Rightarrow> string list \<Rightarrow> string list" where
  "accumulate target buffer [] = (if buffer = [] then [] else [trim buffer])"
| "accumulate target buffer (sentence # rest) =
     (if target \<le> length buffer + length sentence
      then trim buffer # accumulate target (sentence @ ''. '') rest
      else accumulate target (buffer @ sentence @ ''. '') rest)"

definition chunk_spec :: "string \<Rightarrow> nat \<Rightarrow> string list" where
  "chunk_spec txt target = accumulate target [] (split_on is_terminal txt)"

subsection \<open>retrieveRelevantChunks\<close>

text \<open>
  The Course model is not part of the sources; these are the fields of a stored chunk
  and of a material that the service reads and writes.
\<close>

record chunk =
  chunkText_of :: string
  pageNumber :: number
  embedding :: "number list"

record material =
  title :: string
  chunks :: "chunk list"

text \<open>An element of \<open>allChunks\<close>, and the same with its \<open>score\<close>.\<close>

record retrieved =
  rtext :: string
  source :: string
  page :: number
  rembedding :: "number list"

record scored = retrieved +
  rscore :: number

definition allChunks :: "material list \<Rightarrow> retrieved list" where
  "allChunks materials =
     concat (map (\<lambda>m. map (\<lambda>c. \<lparr>rtext = chunkText_of c, source = title m,
                                     page = pageNumber c, rembedding = embedding c\<rparr>)
                          (chunks m)) materials)"

definition with_score :: "retrieved \<Rightarrow> number \<Rightarrow> scored" where
  "with_score c s =
     \<lparr>rtext = rtext c, source = source c, page = page c, rembedding = rembedding c,
      rscore = s\<rparr>"

text \<open>
  \<open>a[i]\<close> for an array of numbers in an arithmetic expression: out of range it is
  \<open>undefined\<close>, which arithmetic turns into \<open>NaN\<close>.
\<close>

definition elem_at :: "number list \<Rightarrow> nat \<Rightarrow> number" where
  "elem_at a i = (if i < length a then a ! i else NaN)"

text \<open>
  One round of the cosine loop, on \<open>(dotProduct, normA, normB)\<close>; the loop runs over the
  positions of the query embedding.
\<close>

definition cosine_step ::
  "number list \<Rightarrow> number list \<Rightarrow> number \<times> number \<times> number \<Rightarrow> nat \<Rightarrow> number \<times> number \<times> number"
  where
  "cosine_step queryEmbedding emb acc i =
     (case acc of (dotProduct, normA, normB) \<Rightarrow>
        (num_add dotProduct (num_mul (elem_at queryEmbedding i) (elem_at emb i)),
         num_add normA (num_mul (elem_at queryEmbedding i) (elem_at queryEmbedding i)),
         num_add normB (num_mul (elem_at emb i) (elem_at emb i))))"

definition cosine :: "number list \<Rightarrow> number list \<Rightarrow> number" where
  "cosine queryEmbedding emb =
     (case foldl (cosine_step queryEmbedding emb) (Num 0, Num 0, Num 0)
             [0 ..< length queryEmbedding] of
        (dotProduct, normA, normB) \<Rightarrow>
          num_div dotProduct (num_mul (Math_sqrt normA) (Math_sqrt normB)))"

definition vector_score :: "number list \<Rightarrow> retrieved \<Rightarrow> scored" where
  "vector_score queryEmbedding c =
     (if length (rembedding c) = 0 then with_score c (Num 0)
      else with_score c (cosine queryEmbedding (rembedding c)))"

text \<open>
  \<open>sort((a, b) => b.score - a.score)\<close>.  The sort of the engine is stable, and the
  comparator asks for \<open>b\<close> before \<open>a\<close> when \<open>b.score - a.score\<close> is positive.  Insertion
  from the right gives the stably sorted list whenever the comparator is a consistent
  order, which it is unless a score is \<open>NaN\<close>.  With a \<open>NaN\<close> score the comparator is not a
  consistent order and the result of the engine depends on the pairs that its algorithm
  compares; the function below is not a model of that algorithm.  Where no element asks to
  come before its left neighbour, the engine, which first looks for a run of neighbours in
  order, and the function below both leave the list as it is.
\<close>

definition comes_after :: "scored \<Rightarrow> scored \<Rightarrow> bool" where
  "comes_after a b = num_gt (num_sub (rscore b) (rscore a)) (Num 0)"

fun insert_by_score :: "scored \<Rightarrow> scored list \<Rightarrow> scored list" where
  "insert_by_score a [] = [a]"
| "insert_by_score a (b # bs) =
     (if comes_after a b then b # insert_by_score a bs else a # b # bs)"

definition sort_by_score :: "scored list \<Rightarrow> scored list" where
  "sort_by_score xs = foldr insert_by_score xs []"

text \<open>
  The dot product of two vectors in double arithmetic, summed from the left, for the
  statement of the cosine similarity.
\<close>

definition dot :: "number list \<Rightarrow> number list \<Rightarrow> number" where
  "dot a b = foldl (\<lambda>s (x, y). num_add s (num_mul x y)) (Num 0) (zip a b)"


text \<open>The branch of the vector similarity search.\<close>

definition vectorSearch :: "number list \<Rightarrow> retrieved list \<Rightarrow> int \<Rightarrow> scored list" where
  "vectorSearch queryEmbedding cs topK =
     slice0 topK (sort_by_score (map (vector_score queryEmbedding) cs))"

text \<open>The branch of the keyword matching.\<close>

definition queryTerms :: "string \<Rightarrow> string list" where
  "queryTerms q = filter (\<lambda>t. 3 < length t) (split_on is_space (toLowerCase q))"

definition keyword_score :: "string list \<Rightarrow> retrieved \<Rightarrow> scored" where
  "keyword_score terms c =
     with_score c
       (Num (of_nat (length (filter (\<lambda>t. js_includes (toLowerCase (rtext c)) t) terms))))"

definition keywordSearch :: "string \<Rightarrow> retrieved list \<Rightarrow> int \<Rightarrow> scored list" where
  "keywordSearch q cs topK =
     slice0 topK (sort_by_score
        (filter (\<lambda>c. num_gt (rscore c) (Num 0)) (map (keyword_score (queryTerms q)) cs)))"

text \<open>
  \<open>retrieveRelevantChunks(courseId, query, topK = 3)\<close>.  \<open>course\<close> is what
  \<open>Course.findById\<close> returns, as its list of materials; \<open>queryEmbedding\<close> is the value of
  the variable of that name after the call of the embedding model: \<open>None\<close> when no model
  is configured or the call failed.  An array is truthy even when it is empty.
\<close>

definition retrieveRelevantChunks ::
  "material list option \<Rightarrow> number list option \<Rightarrow> string \<Rightarrow> int option \<Rightarrow> scored list" where
  "retrieveRelevantChunks course queryEmbedding q topK' =
     (let topK = (case topK' of None \<Rightarrow> 3 | Some k \<Rightarrow> k)
      in case course of
           None \<Rightarrow> []
         | Some materials \<Rightarrow>
             (case queryEmbedding of
                Some qe \<Rightarrow>
                  if list_ex (\<lambda>c. 0 < length (rembedding c)) (allChunks materials)
                  then vectorSearch qe (allChunks materials) topK
                  else keywordSearch q (allChunks materials) topK
              | None \<Rightarrow> keywordSearch q (allChunks materials) topK))"

section \<open>LearningPlan (src/backend/models/LearningPlan.js)\<close>

datatype week_status = Pending | InProgress | Completed

text \<open>
  A week of a plan; a status that is not set is \<open>None\<close>.  The week schema has no
  \<open>description\<close> path, so a value assigned to \<open>weeks[i].description\<close> is not stored with the
  plan, and the model has no such field.
\<close>

record week =
  weekNumber :: int
  topics :: "string list"
  tasks :: "string list"
  status :: "week_status option"

record learning_plan =
  weeks :: "week list"

section \<open>LearningCopilotService (the third service in src/unnamed/part_004)\<close>

text \<open>\<open>extractTopicFromQuestion\<close>, on the list of keywords of the course context.\<close>

fun extractTopicFromQuestion :: "string \<Rightarrow> string list \<Rightarrow> string" where
  "extractTopicFromQuestion question [] = ''general''"
| "extractTopicFromQuestion question (keyword # keywords) =
     (if js_includes (toLowerCase question) (toLowerCase keyword) then keyword
      else extractTopicFromQuestion question keywords)"

text \<open>
  The object that \<open>answerQuestion\<close> builds to record the interaction: its response is
  \<open>response.substring(0, 500)\<close>.
\<close>

definition answerQuestion_interaction ::
  "string \<Rightarrow> string list \<Rightarrow> string \<Rightarrow> int \<Rightarrow> copilot_interaction" where
  "answerQuestion_interaction question keywords response' now =
     \<lparr>interactionType = ''question'',
      interactionTopic = Some (extractTopicFromQuestion question keywords),
      query = question,
      response = take 500 response',
      timestamp = now\<rparr>"

text \<open>
  The step of \<open>answerQuestion\<close> that records the interaction in the memory that it has
  found: the push of that object, with the memory as it is when \<open>memory.save()\<close> is
  reached.  An error that the push raises is caught by the \<open>catch\<close> of \<open>answerQuestion\<close>,
  which returns the fallback answer; nothing is saved then.
\<close>

definition answerQuestion_record ::
  "learning_memory \<Rightarrow> string \<Rightarrow> string list \<Rightarrow> string \<Rightarrow> int \<Rightarrow> error + learning_memory" where
  "answerQuestion_record memory question keywords response' now =
     push_copilotInteractions memory
       (JsObject (answerQuestion_interaction question keywords response' now))"

section \<open>LearningAgent (src/backend/services/LearningAgent.js)\<close>

definition determineNextAction :: "string list \<Rightarrow> string" where
  "determineNextAction weakTopics =
     (if 0 < length weakTopics then ''Review '' @ hd weakTopics
      else ''Continue current module'')"

record agent_result =
  reply :: string
  contextUsed :: "string list"
  suggestedNextStep :: string

text \<open>The object that \<open>processInteraction\<close> builds to record the interaction.\<close>

definition agent_interaction :: "string \<Rightarrow> string \<Rightarrow> int \<Rightarrow> copilot_interaction" where
  "agent_interaction userMessage replyResponse now =
     \<lparr>interactionType = ''agent-session'',
      interactionTopic = None,
      query = userMessage,
      response = replyResponse,
      timestamp = now\<rparr>"

text \<open>
  \<open>processInteraction(userId, courseId, userMessage)\<close>.  The arguments after the message
  are what the collaborators return during the call: the memory and the five most
  recently updated TopicMastery records of the learner, the course and the embedding of
  the message (both go to \<open>retrieveRelevantChunks\<close>), the text \<open>reply.response\<close> of the
  language model and the clock value.  The prompt, which only the language model reads,
  and the latency metric that the call writes before it returns are not modelled.  The
  method has no \<open>try\<close>: an error that the push raises rejects the
  call, \<open>memory.save()\<close> and the \<open>return\<close> are not reached, and the stored memory stays as it
  was.  Otherwise the result is the memory as it is saved and the value returned to the
  caller.
\<close>

definition processInteraction ::
  "string \<Rightarrow> learning_memory option \<Rightarrow> topic_mastery list \<Rightarrow> material list option \<Rightarrow>
   number list option \<Rightarrow> string \<Rightarrow> int \<Rightarrow> error + (learning_memory option \<times> agent_result)" where
  "processInteraction userMessage memory recentMastery course queryEmbedding replyResponse now =
     (let weakTopics = map topicName (filter (\<lambda>m. classification m = Weak) recentMastery);
          context = retrieveRelevantChunks course queryEmbedding userMessage None;
          result = \<lparr>reply = replyResponse,
                    contextUsed = map source context,
                    suggestedNextStep = determineNextAction weakTopics\<rparr>
      in case memory of
           None \<Rightarrow> Inr (None, result)
         | Some m \<Rightarrow>
             (case push_copilotInteractions m
                     (JsObject (agent_interaction userMessage replyResponse now)) of
                Inl e \<Rightarrow> Inl e
              | Inr m' \<Rightarrow> Inr (Some m', result)))"

text \<open>
  What \<open>selfReflectAndReplan\<close> returns: \<open>null\<close>, the message that the plan for the week
  of the given number now includes a review of the given topic, or the message that the
  current plan looks solid.
\<close>

datatype replan_message = Null | Adjusted int string | Solid

text \<open>The test \<open>w => !w.status || w.status !== 'completed'\<close>.\<close>

definition not_completed :: "week \<Rightarrow> bool" where
  "not_completed w = (status w = None \<or> status w \<noteq> Some Completed)"

text \<open>The result of the query for the weak topics, and the task for the first of them.\<close>

definition weak_of :: "topic_mastery list \<Rightarrow> topic_mastery list" where
  "weak_of masteries = filter (\<lambda>t. classification t = Weak) masteries"

definition review_task :: "topic_mastery list \<Rightarrow> string" where
  "review_task masteries = ''Review: '' @ topicName (hd (weak_of masteries))"

text \<open>
  \<open>selfReflectAndReplan(userId, courseId)\<close> on the stored memory and plan of the learner
  and the TopicMastery records of the learner for the course; the weak ones are those
  that the query with \<open>classification: 'weak'\<close> finds.  The result is the memory and the
  plan as they are stored afterwards, and the returned message.
\<close>

definition selfReflectAndReplan ::
  "learning_memory option \<Rightarrow> learning_plan option \<Rightarrow> topic_mastery list \<Rightarrow> int \<Rightarrow>
   (learning_memory option \<times> learning_plan option) \<times> replan_message" where
  "selfReflectAndReplan memory plan masteries now =
     (case (memory, plan) of
        (Some m, Some p) \<Rightarrow>
          (let weakTopics = weak_of masteries
           in if 0 < length weakTopics then
                (case findIndex not_completed (weeks p) of
                   Some nextWeekIndex \<Rightarrow>
                     (let topicToReview = topicName (hd weakTopics);
                          w = weeks p ! nextWeekIndex
                      in if ''Review: '' @ topicToReview \<notin> set (tasks w) then
                           ((Some (m\<lparr>planAdjustments := planAdjustments m @
                                      [\<lparr>adjustmentDate = now,
                                        reason = ''weak-topic-repeat'',
                                        topicsAffected = [topicToReview],
                                        automatedBy = ''copilot-recommendation''\<rparr>]\<rparr>),
                             Some (p\<lparr>weeks := (weeks p)
                                      [nextWeekIndex :=
                                         w\<lparr>tasks := tasks w @ [''Review: '' @ topicToReview]\<rparr>]\<rparr>)),
                            Adjusted (weekNumber w) topicToReview)
                         else ((Some m, Some p), Solid))
                 | None \<Rightarrow> ((Some m, Some p), Solid))
              else ((Some m, Some p), Solid))
      | _ \<Rightarrow> ((memory, plan), Null))"

text \<open>
  Two calls in a row: the second call finds the memory and the plan that the first one
  has stored, and the same TopicMastery records.
\<close>

definition replan_twice ::
  "learning_memory option \<Rightarrow> learning_plan option \<Rightarrow> topic_mastery list \<Rightarrow> int \<Rightarrow> int \<Rightarrow>
   (learning_memory option \<times> learning_plan option) \<times> replan_message" where
  "replan_twice memory plan masteries now now' =
     (case selfReflectAndReplan memory plan masteries now of
        ((memory1, plan1), message1) \<Rightarrow> selfReflectAndReplan memory1 plan1 masteries now')"

section \<open>Concrete inputs\<close>

definition eleven_results :: "quiz_result list" where
  "eleven_results =
     map (\<lambda>k. \<lparr>qr_score = Num (of_nat k), qr_quizId = ''quiz'', qr_difficulty = ''medium'',
                qr_timeSpent = Num 0, qr_now = int k\<rparr>) [1, 2, 3, 4, 5, 6, 7, 8, 9, 10, 11]"

definition result_90 :: quiz_result where
  "result_90 =
     \<lparr>qr_score = Num 90, qr_quizId = ''quiz-1'', qr_difficulty = ''medium'',
      qr_timeSpent = Num 12, qr_now = 1000\<rparr>"


definition fourier_mistake :: mistake_data where
  "fourier_mistake =
     \<lparr>md_topic = ''Signals'', md_concept = ''Fourier series'',
      md_mistakeDescription = ''sign of the exponent'', md_correctAnswer = ''negative''\<rparr>"

text \<open>A mistake is recorded at time 10 and marked as corrected at time 20.\<close>

definition corrected_memory :: learning_memory where
  "corrected_memory =
     correctMistake (recordMistake new_LearningMemory fourier_mistake ''m1'' 10) ''m1'' 20"

text \<open>The same mistake is then made again at time 30.\<close>

definition repeated_memory :: learning_memory where
  "repeated_memory = recordMistake corrected_memory fourier_mistake ''m2'' 30"

definition signals_weak :: "topic_mastery list" where
  "signals_weak =
     [(new_TopicMastery ''Filters'')\<lparr>masteryScore := Num 80, classification := Strong\<rparr>,
      new_TopicMastery ''Signals'']"

definition two_week_plan :: learning_plan where
  "two_week_plan =
     \<lparr>weeks =
        [\<lparr>weekNumber = 1, topics = [''Filters''], tasks = [''Read chapter 1''],
          status = Some Completed\<rparr>,
         \<lparr>weekNumber = 2, topics = [''Signals''], tasks = [''Read chapter 2''],
          status = Some Pending\<rparr>]\<rparr>"

definition reviewed_plan :: learning_plan where
  "reviewed_plan =
     \<lparr>weeks =
        [\<lparr>weekNumber = 1, topics = [''Filters''], tasks = [''Read chapter 1''],
          status = Some Completed\<rparr>,
         \<lparr>weekNumber = 2, topics = [''Signals''],
          tasks = [''Read chapter 2'', ''Review: Signals''], status = Some Pending\<rparr>]\<rparr>"

definition long_reply :: string where
  "long_reply = replicate 501 CHR ''a''"

definition medium_quiz :: adaptive_quiz where
  "medium_quiz =
     \<lparr>difficulty = ''medium'',
      adaptiveDifficultyConfig =
        \<lparr>enabled = True, scorethresholdForLevelUp = Num 80,
         scoreThresholdForLevelDown = Num 60\<rparr>,
      totalQuestions = Num 20,
      maxScore = Num 100,
      userAttempts = [],
      performanceMetrics =
        \<lparr>totalAttempts = 0, bestScore = Num 0, averageScore = Num 0, lowestScore = Num 0,
         passCount = 0, failCount = 0, passRate = Num 0, averageTimeSpent = Num 0\<rparr>\<rparr>"

text \<open>Twenty answers of which the first \<open>n\<close> are correct, given in ten minutes.\<close>

definition answers_correct :: "nat \<Rightarrow> attempt_data" where
  "answers_correct n =
     \<lparr>ad_startedAt = Num 0, ad_completedAt = Num 600000,
      ad_answers =
        replicate n \<lparr>questionId = ''q'', selectedAnswer = ''a'', isCorrect = True\<rparr> @
        replicate (20 - n) \<lparr>questionId = ''q'', selectedAnswer = ''b'', isCorrect = False\<rparr>,
      ad_conceptsWithErrors = None\<rparr>"


text \<open>A course whose two chunks have embeddings orthogonal to the query embedding \<open>[1, 0]\<close>.\<close>

definition orthogonal_course :: "material list" where
  "orthogonal_course =
     [\<lparr>title = ''notes.pdf'',
       chunks =
         [\<lparr>chunkText_of = ''Fourier series'', pageNumber = Num 0,
            embedding = [Num 0, Num 1]\<rparr>,
          \<lparr>chunkText_of = ''Laplace transform'', pageNumber = Num 0,
            embedding = [Num 0, Num 2]\<rparr>]\<rparr>]"


subsection \<open>Evaluation rules\<close>

lemma nlog2_numeral:
  "nlog2 (numeral k) = (if (numeral k :: int) < 2 then 0 else 1 + nlog2 (numeral k div 2))"
  "nlog2 1 = 0"
  "nlog2 0 = 0"
  by (simp_all add: nlog2.simps)

lemma isqrt_numeral:
  "isqrt (numeral k) =
     (if (numeral k :: int) < 1 then 0
      else let r = 2 * isqrt (numeral k div 4) in if (r + 1) * (r + 1) \<le> numeral k then r + 1 else r)"
  "isqrt 1 = 1"
  "isqrt 0 = 0"
  by (simp_all add: isqrt.simps [of "numeral k"] isqrt.simps [of 1] isqrt.simps [of 0])

lemma floor_rat_numeral_div:
  "\<lfloor>(numeral a :: rat) / numeral b\<rfloor> = numeral a div numeral b"
  "\<lfloor>(1 :: rat) / numeral b\<rfloor> = 1 div numeral b"
  by (metis floor_divide_of_int_eq of_int_numeral of_int_1)+

lemma ceiling_rat_numeral_div:
  "\<lceil>(numeral a :: rat) / numeral b\<rceil> = - (- numeral a div numeral b)"
  "\<lceil>(1 :: rat) / numeral b\<rceil> = - (- 1 div numeral b)"
  by (metis ceiling_divide_eq_div of_int_numeral of_int_1)+

lemma Let_rat_quotient:
  "Let (numeral a / numeral b :: rat) f = f (numeral a / numeral b)"
  "Let (1 / numeral b :: rat) f = f (1 / numeral b)"
  "Let (Num r) g = g (Num r)"
  by (simp_all add: Let_def)

lemmas num_eval =
  fl_def fl_pos_def floor_log2_def pow2_def round_half_even_def nlog2_numeral
  sqrt_pos_def isqrt_numeral
  floor_rat_numeral_div ceiling_rat_numeral_div Let_rat_quotient

section \<open>Properties of the arithmetic\<close>

text \<open>\<open>nlog2\<close> and \<open>floor_log2\<close> are the binary logarithm rounded down.\<close>

lemma nlog2_bounds:
  "1 \<le> n \<Longrightarrow> 2 ^ nat (nlog2 n) \<le> n \<and> n < 2 * 2 ^ nat (nlog2 n) \<and> 0 \<le> nlog2 n"
proof (induction n rule: nlog2.induct)
  case (1 n)
  show ?case
  proof (cases "n < 2")
    case True
    with "1.prems" show ?thesis by (simp add: nlog2.simps [of n])
  next
    case False
    then have h: "1 \<le> n div 2" by simp
    from "1.IH" [OF False h] have ih: "2 ^ nat (nlog2 (n div 2)) \<le> n div 2"
      "n div 2 < 2 * 2 ^ nat (nlog2 (n div 2))" "0 \<le> nlog2 (n div 2)" by simp_all
    have e: "nlog2 n = 1 + nlog2 (n div 2)"
      using False by (simp add: nlog2.simps [of n])
    have p: "(2::int) ^ nat (1 + nlog2 (n div 2)) = 2 * 2 ^ nat (nlog2 (n div 2))"
      using ih(3) by (simp add: nat_add_distrib)
    from ih show ?thesis
      unfolding e p by auto
  qed
qed

lemma pow2_power_int: "pow2 k = power_int 2 k"
  by (simp add: pow2_def power_int_def power_one_over inverse_eq_divide)

lemma pow2_pos: "0 < pow2 k"
  by (simp add: pow2_def)

lemma pow2_mono: "a \<le> b \<Longrightarrow> pow2 a \<le> pow2 b"
  by (simp add: pow2_power_int power_int_increasing)


lemma pow2_nonneg: "0 \<le> k \<Longrightarrow> pow2 k = of_int (2 ^ nat k)"
  by (simp add: pow2_def)

lemma floor_log2_lower:
  assumes "0 < x"
  shows "pow2 (floor_log2 x) \<le> x"
proof (cases "1 \<le> x")
  case True
  then have f: "1 \<le> \<lfloor>x\<rfloor>" by simp
  from nlog2_bounds [OF f] have b: "2 ^ nat (nlog2 \<lfloor>x\<rfloor>) \<le> \<lfloor>x\<rfloor>" "0 \<le> nlog2 \<lfloor>x\<rfloor>"
    by simp_all
  from b(1) have "(of_int (2 ^ nat (nlog2 \<lfloor>x\<rfloor>)) :: rat) \<le> of_int \<lfloor>x\<rfloor>"
    by (simp only: of_int_le_iff)
  also have "\<dots> \<le> x" by simp
  finally show ?thesis
    using True b(2) by (simp add: floor_log2_def pow2_nonneg)
next
  case False
  let ?n = "\<lceil>1 / x\<rceil>"
  from False assms have "1 < 1 / x" by simp
  then have n: "2 \<le> ?n" by linarith
  then have n1: "1 \<le> ?n - 1" by simp
  from nlog2_bounds [OF n1] have b: "?n - 1 < 2 * 2 ^ nat (nlog2 (?n - 1))" "0 \<le> nlog2 (?n - 1)"
    by simp_all
  then have "?n \<le> 2 * 2 ^ nat (nlog2 (?n - 1))" by simp
  then have d: "(of_int ?n :: rat) \<le> of_int (2 * 2 ^ nat (nlog2 (?n - 1)))"
    by (simp only: of_int_le_iff)
  have c: "1 / x \<le> of_int ?n" by (rule le_of_int_ceiling)
  from order_trans [OF c d] have u: "1 / x \<le> 2 * 2 ^ nat (nlog2 (?n - 1))" by simp
  have e: "floor_log2 x = - (nlog2 (?n - 1) + 1)"
    using False n by (simp add: floor_log2_def Let_def)
  have "pow2 (- (nlog2 (?n - 1) + 1)) = 1 / (2 * 2 ^ nat (nlog2 (?n - 1)))"
    using b(2) by (simp add: pow2_def nat_add_distrib)
  also have "\<dots> \<le> x"
    using u assms by (simp add: field_simps)
  finally show ?thesis by (simp add: e)
qed

lemma floor_log2_upper:
  assumes "0 < x"
  shows "x < pow2 (floor_log2 x + 1)"
proof (cases "1 \<le> x")
  case True
  then have f: "1 \<le> \<lfloor>x\<rfloor>" by simp
  from nlog2_bounds [OF f] have b: "\<lfloor>x\<rfloor> < 2 * 2 ^ nat (nlog2 \<lfloor>x\<rfloor>)" "0 \<le> nlog2 \<lfloor>x\<rfloor>"
    by simp_all
  from b(1) have "\<lfloor>x\<rfloor> + 1 \<le> 2 * 2 ^ nat (nlog2 \<lfloor>x\<rfloor>)" by simp
  then have le: "(of_int (\<lfloor>x\<rfloor> + 1) :: rat) \<le> of_int (2 * 2 ^ nat (nlog2 \<lfloor>x\<rfloor>))"
    by (simp only: of_int_le_iff)
  have "x < of_int (\<lfloor>x\<rfloor> + 1)" by linarith
  from less_le_trans [OF this le] have "x < of_int (2 * 2 ^ nat (nlog2 \<lfloor>x\<rfloor>))" .
  then show ?thesis
    using True b(2) by (simp add: floor_log2_def pow2_def nat_add_distrib)
next
  case False
  let ?n = "\<lceil>1 / x\<rceil>"
  from False assms have "1 < 1 / x" by simp
  then have n: "2 \<le> ?n" by linarith
  then have n1: "1 \<le> ?n - 1" by simp
  from nlog2_bounds [OF n1] have b: "2 ^ nat (nlog2 (?n - 1)) \<le> ?n - 1" "0 \<le> nlog2 (?n - 1)"
    by simp_all
  from b(1) have "(of_int (2 ^ nat (nlog2 (?n - 1))) :: rat) \<le> of_int (?n - 1)"
    by (simp only: of_int_le_iff)
  moreover have "of_int (?n - 1) < 1 / x" by linarith
  ultimately have u: "of_int (2 ^ nat (nlog2 (?n - 1))) < 1 / x" by (rule le_less_trans)
  have e: "floor_log2 x + 1 = - nlog2 (?n - 1)"
    using False n by (simp add: floor_log2_def Let_def)
  have "x < 1 / 2 ^ nat (nlog2 (?n - 1))"
    using u assms by (simp add: field_simps)
  also have "\<dots> = pow2 (- nlog2 (?n - 1))"
    using b(2) by (simp add: pow2_def)
  finally show ?thesis by (simp add: e)
qed

text \<open>\<open>isqrt\<close> is the integer square root.\<close>

lemma isqrt_bounds:
  "0 \<le> n \<Longrightarrow> 0 \<le> isqrt n \<and> isqrt n * isqrt n \<le> n \<and> n < (isqrt n + 1) * (isqrt n + 1)"
proof (induction n rule: isqrt.induct)
  case (1 n)
  show ?case
  proof (cases "n < 1")
    case True
    with "1.prems" show ?thesis by (simp add: isqrt.simps [of n])
  next
    case False
    let ?r = "2 * isqrt (n div 4)"
    from "1.prems" have "0 \<le> n div 4" by simp
    from "1.IH" [OF False this]
    have ih: "0 \<le> isqrt (n div 4)" "isqrt (n div 4) * isqrt (n div 4) \<le> n div 4"
      "n div 4 < (isqrt (n div 4) + 1) * (isqrt (n div 4) + 1)"
      by simp_all
    from ih(2) have lo: "?r * ?r \<le> n" by (simp add: algebra_simps, linarith?)
    from ih(3) have "n div 4 + 1 \<le> (isqrt (n div 4) + 1) * (isqrt (n div 4) + 1)" by simp
    then have hi: "n < (?r + 2) * (?r + 2)" by (simp add: algebra_simps, linarith?)
    show ?thesis
    proof (cases "(?r + 1) * (?r + 1) \<le> n")
      case True
      with False have "isqrt n = ?r + 1" by (simp add: isqrt.simps [of n] Let_def)
      with True hi ih(1) show ?thesis by (simp add: algebra_simps)
    next
      case F2: False
      with False have "isqrt n = ?r" by (simp add: isqrt.simps [of n] Let_def)
      with F2 lo ih(1) show ?thesis by (simp add: algebra_simps)
    qed
  qed
qed









subsection \<open>The rounding error of one operation\<close>

text \<open>
  Up to 128 the doubles are at most \<open>2\<^sup>-\<^sup>4\<^sup>5\<close> apart, so one correctly rounded operation
  is off by no more than that.
\<close>

lemma round_half_even_error: "\<bar>of_int (round_half_even y) - y\<bar> \<le> 1 / 2"
proof -
  have "of_int \<lfloor>y\<rfloor> \<le> y" "y < of_int \<lfloor>y\<rfloor> + 1" by linarith+
  then show ?thesis
    by (auto simp: round_half_even_def Let_def abs_le_iff)
qed

lemma abs_scale:
  fixes m x q :: rat
  assumes "0 < q"
  shows "\<bar>m - x / q\<bar> * q = \<bar>m * q - x\<bar>"
proof -
  have "\<bar>m - x / q\<bar> * q = \<bar>m - x / q\<bar> * \<bar>q\<bar>"
    using assms by simp
  also have "\<dots> = \<bar>(m - x / q) * q\<bar>"
    by (simp only: abs_mult)
  also have "(m - x / q) * q = m * q - x"
    using assms by (simp add: left_diff_distrib)
  finally show ?thesis .
qed

lemma round_half_even_nonneg: "0 \<le> y \<Longrightarrow> 0 \<le> round_half_even y"
proof -
  assume "0 \<le> y"
  then have "0 \<le> \<lfloor>y\<rfloor>" by simp
  then show ?thesis by (simp add: round_half_even_def Let_def)
qed

lemma fl_pos_error:
  assumes "0 < x" "x \<le> 128"
  shows "\<exists>r. fl_pos x = Num r \<and> 0 \<le> r \<and> \<bar>r - x\<bar> \<le> pow2 (- 45)"
proof -
  let ?e = "floor_log2 x"
  let ?qe = "if ?e < - 1022 then - 1074 else ?e - 52"
  let ?m = "round_half_even (x / pow2 ?qe)"
  let ?r = "of_int ?m * pow2 ?qe"
  have q0: "0 < pow2 ?qe" by (rule pow2_pos)
  have lo: "pow2 ?e \<le> x" by (rule floor_log2_lower [OF assms(1)])
  have "?e \<le> 7"
  proof (rule ccontr)
    assume "\<not> ?e \<le> 7"
    then have "pow2 8 \<le> pow2 ?e" by (intro pow2_mono) simp
    with lo assms(2) show False by (simp add: pow2_def)
  qed
  then have "?qe \<le> - 45" by simp
  then have q: "pow2 ?qe \<le> pow2 (- 45)" by (rule pow2_mono)
  have "\<bar>of_int ?m - x / pow2 ?qe\<bar> \<le> 1 / 2" by (rule round_half_even_error)
  then have "\<bar>of_int ?m - x / pow2 ?qe\<bar> * pow2 ?qe \<le> 1 / 2 * pow2 ?qe"
    using q0 by (simp only: mult_le_cancel_right) simp
  moreover have "\<bar>of_int ?m - x / pow2 ?qe\<bar> * pow2 ?qe = \<bar>?r - x\<bar>"
    by (rule abs_scale [OF q0])
  ultimately have err: "\<bar>?r - x\<bar> \<le> pow2 ?qe / 2" by simp
  with q have e45: "\<bar>?r - x\<bar> \<le> pow2 (- 45)"
    using q0 by linarith
  have "pow2 (- 45) \<le> 1" by (simp add: pow2_def)
  with e45 assms(2) have "?r \<le> 129" by linarith
  moreover have "(129::rat) < pow2 1024" by (simp add: pow2_def)
  ultimately have "\<not> pow2 1024 \<le> ?r" by linarith
  then have "fl_pos x = Num ?r" by (simp add: fl_pos_def Let_def)
  moreover have "0 \<le> ?r"
    using q0 assms(1) by (simp add: round_half_even_nonneg)
  ultimately show ?thesis using e45 by blast
qed

lemma fl_error:
  assumes "0 \<le> x" "x \<le> 128"
  shows "\<exists>r. fl x = Num r \<and> 0 \<le> r \<and> \<bar>r - x\<bar> \<le> pow2 (- 45)"
proof (cases "x = 0")
  case True
  then show ?thesis using pow2_pos [of "- 45"] by (simp add: fl_def)
next
  case False
  with assms have "0 < x" by simp
  from fl_pos_error [OF this assms(2)] False \<open>0 < x\<close> show ?thesis
    by (simp add: fl_def)
qed

section \<open>Properties of TopicMastery\<close>

subsection \<open>The fields after an update\<close>

lemma recentQuizzes_update:
  "recentQuizzes (updateMasteryFromQuiz this q i d t n) =
     (if 10 < length (recentQuizzes this) + 1
      then tl (recentQuizzes this @
             [\<lparr>rq_quizId = i, rq_score = q, rq_attemptedAt = n, rq_difficulty = d,
               rq_timeSpent = t\<rparr>])
      else recentQuizzes this @
             [\<lparr>rq_quizId = i, rq_score = q, rq_attemptedAt = n, rq_difficulty = d,
               rq_timeSpent = t\<rparr>])"
  by (simp add: updateMasteryFromQuiz_def Let_def)

lemma averageQuizScore_update:
  "averageQuizScore (updateMasteryFromQuiz this q i d t n) =
     Math_round (num_div (totalScore (recentQuizzes (updateMasteryFromQuiz this q i d t n)))
        (Num (of_nat (length (recentQuizzes (updateMasteryFromQuiz this q i d t n))))))"
  by (simp add: updateMasteryFromQuiz_def Let_def)

lemma masteryScore_update:
  "masteryScore (updateMasteryFromQuiz this q i d t n) =
     Math_round (num_add
        (num_mul (averageQuizScore (updateMasteryFromQuiz this q i d t n)) recentWeight)
        (num_mul (masteryScore this) historicalWeight))"
  by (simp add: updateMasteryFromQuiz_def Let_def)

lemma classification_update:
  "classification (updateMasteryFromQuiz this q i d t n) = classification this"
  by (simp add: updateMasteryFromQuiz_def Let_def)

lemma pre_save_fields:
  "recentQuizzes (pre_save this) = recentQuizzes this"
  "masteryScore (pre_save this) = masteryScore this"
  "averageQuizScore (pre_save this) = averageQuizScore this"
  by (simp_all add: pre_save_def)

lemma weights:
  "recentWeight = Num (6305039478318694 / 9007199254740992)"
  "historicalWeight = Num (5404319552844595 / 18014398509481984)"
  by (simp_all add: recentWeight_def historicalWeight_def num_eval cong: let_weak_cong)

subsection \<open>The ring buffer\<close>

lemma last10_last10: "last10 (last10 xs @ ys) = last10 (xs @ ys)"
  by (cases "length xs \<le> 10") (auto simp: last10_def add.commute)

lemma length_last10: "length (last10 xs) \<le> 10"
  by (simp add: last10_def)

lemma recentQuizzes_recordQuizResult:
  "length (recentQuizzes this) \<le> 10 \<Longrightarrow>
   recentQuizzes (recordQuizResult this r) = last10 (recentQuizzes this @ [recent_of r])"
  by (cases "recentQuizzes this")
     (auto simp: recordQuizResult_def pre_save_fields recentQuizzes_update recent_of_def
        last10_def drop_Cons')

lemma recentQuizzes_foldl:
  "length (recentQuizzes this) \<le> 10 \<Longrightarrow>
   recentQuizzes (foldl recordQuizResult this rs) =
     last10 (recentQuizzes this @ map recent_of rs)"
proof (induction rs arbitrary: this)
  case Nil
  then show ?case by (simp add: last10_def)
next
  case (Cons r rs)
  have "length (recentQuizzes (recordQuizResult this r)) \<le> 10"
    using Cons.prems by (simp add: recentQuizzes_recordQuizResult length_last10)
  from Cons.IH [OF this] Cons.prems show ?case
    by (simp add: recentQuizzes_recordQuizResult last10_last10)
qed

lemma stored_at_most_ten: "stored this \<Longrightarrow> length (recentQuizzes this) \<le> 10"
  by (induction rule: stored.induct)
     (simp_all add: pre_save_fields new_TopicMastery_def recentQuizzes_recordQuizResult
        length_last10)

text \<open>
  C7.  On a record that holds at most ten recent quizzes (every stored record does, by
  \<open>stored_at_most_ten\<close>), eleven consecutive quiz results leave \<open>recentQuizzes\<close> with
  exactly ten entries: those of the second to the eleventh call, in the order of the
  calls.  The entry of the first call and all older entries are gone.
\<close>

theorem ring_buffer_after_eleven:
  "length (recentQuizzes this) \<le> 10 \<Longrightarrow> length rs = 11 \<Longrightarrow>
   recentQuizzes (foldl recordQuizResult this rs) = map recent_of (tl rs) \<and>
   length (recentQuizzes (foldl recordQuizResult this rs)) = 10"
  by (simp add: recentQuizzes_foldl last10_def drop_Suc map_tl)

theorem ring_buffer_after_eleven_witness:
  "length (recentQuizzes (new_TopicMastery ''Signals'')) \<le> 10 \<and>
   length eleven_results = 11 \<and>
   map rq_attemptedAt
     (recentQuizzes (foldl recordQuizResult (new_TopicMastery ''Signals'') eleven_results)) =
     [2, 3, 4, 5, 6, 7, 8, 9, 10, 11]"
proof -
  have a: "length (recentQuizzes (new_TopicMastery ''Signals'')) \<le> 10"
    by (simp add: new_TopicMastery_def)
  have b: "length eleven_results = 11"
    by (simp add: eleven_results_def)
  have c: "map rq_attemptedAt (map recent_of (tl eleven_results)) =
             [2, 3, 4, 5, 6, 7, 8, 9, 10, 11]"
    by (simp add: eleven_results_def recent_of_def)
  from ring_buffer_after_eleven [OF a b] a b c show ?thesis
    by simp
qed

subsection \<open>Classification\<close>

lemma pre_save_classification:
  "(num_lt (masteryScore this) (Num 40) \<longrightarrow> classification (pre_save this) = Weak) \<and>
   (num_ge (masteryScore this) (Num 40) \<and> num_lt (masteryScore this) (Num 75) \<longrightarrow>
      classification (pre_save this) = Medium) \<and>
   (num_ge (masteryScore this) (Num 75) \<longrightarrow> classification (pre_save this) = Strong)"
  by (cases "masteryScore this") (auto simp: pre_save_def num_ge_def)

lemma stored_is_saved: "stored this \<Longrightarrow> \<exists>that. this = pre_save that"
  by (induction rule: stored.induct) (auto simp: recordQuizResult_def)

lemmas topic_mastery_eval =
  masteryScore_update averageQuizScore_update recentQuizzes_update
  new_TopicMastery_def totalScore_def weights num_eval

text \<open>
  C5.  In every stored TopicMastery record the classification is the one that the score
  determines: weak below 40, medium from 40 and below 75, strong from 75.  The pre-save
  hook computes it from \<open>masteryScore\<close> alone, at every save, and
  \<open>updateMasteryFromQuiz\<close>, the only other code that writes the record, leaves the
  field as it is.
\<close>

theorem classification_follows_score:
  assumes "stored this"
  shows "(num_lt (masteryScore this) (Num 40) \<longrightarrow> classification this = Weak) \<and>
   (num_ge (masteryScore this) (Num 40) \<and> num_lt (masteryScore this) (Num 75) \<longrightarrow>
      classification this = Medium) \<and>
   (num_ge (masteryScore this) (Num 75) \<longrightarrow> classification this = Strong) \<and>
   (masteryScore a = masteryScore b \<longrightarrow>
      classification (pre_save a) = classification (pre_save b)) \<and>
   classification (updateMasteryFromQuiz that q i d t n) = classification that"
proof -
  from assms obtain saved where s: "this = pre_save saved"
    using stored_is_saved by blast
  have "masteryScore a = masteryScore b \<longrightarrow>
      classification (pre_save a) = classification (pre_save b)"
    by (simp add: pre_save_def)
  with pre_save_classification [of saved] s show ?thesis
    by (simp add: pre_save_fields classification_update)
qed

theorem classification_follows_score_witness:
  "stored (recordQuizResult (new_TopicMastery ''Signals'') result_90) \<and>
   masteryScore (recordQuizResult (new_TopicMastery ''Signals'') result_90) = Num 63 \<and>
   classification (recordQuizResult (new_TopicMastery ''Signals'') result_90) = Medium"
proof -
  have st: "stored (recordQuizResult (new_TopicMastery ''Signals'') result_90)"
    by (rule stored.first_result)
  have ms: "masteryScore (recordQuizResult (new_TopicMastery ''Signals'') result_90) = Num 63"
    by (simp add: recordQuizResult_def result_90_def pre_save_fields topic_mastery_eval
          cong: let_weak_cong)
  from classification_follows_score [OF st] st ms show ?thesis
    by (simp add: num_ge_def)
qed

subsection \<open>The score formula\<close>

text \<open>
  The weights 0.7 and 0.3 are not doubles: the code multiplies by the nearest doubles, which
  are a little smaller.  Three roundings (two products and a sum) move the blend by less
  than a twentieth, so \<open>Math.round\<close> gives what exact arithmetic gives unless the exact
  blend ends in .5.
\<close>

lemma blend_error_upper:
  fixes r1 r2 r3 A P :: rat
  assumes "r1 - (7 / 10 * A - A / 22517998136852480) \<le> 1 / 35184372088832"
    "r2 - (3 / 10 * P - P / 90071992547409920) \<le> 1 / 35184372088832"
    "r3 - (r1 + r2) \<le> 1 / 35184372088832"
    "0 \<le> A" "0 \<le> P"
  shows "r3 - (7 * A + 3 * P) / 10 \<le> 1 / 20"
proof -
  have a: "r1 - 7 / 10 * A \<le> 1 / 35184372088832" using assms(1,4) by linarith
  have b: "r2 - 3 / 10 * P \<le> 1 / 35184372088832" using assms(2,5) by linarith
  have c: "r3 - (7 / 10 * A + 3 / 10 * P) \<le> 3 / 35184372088832"
    using a b assms(3) by linarith
  have d: "(7 * A + 3 * P) / 10 = 7 / 10 * A + 3 / 10 * P" by (simp add: field_simps)
  show ?thesis unfolding d using c by linarith
qed

lemma blend_error_lower:
  fixes r1 r2 r3 A P :: rat
  assumes "- (1 / 35184372088832) \<le> r1 - (7 / 10 * A - A / 22517998136852480)"
    "- (1 / 35184372088832) \<le> r2 - (3 / 10 * P - P / 90071992547409920)"
    "- (1 / 35184372088832) \<le> r3 - (r1 + r2)"
    "A \<le> 100" "P \<le> 100"
  shows "- (1 / 20) \<le> r3 - (7 * A + 3 * P) / 10"
proof -
  have a: "- (2 / 35184372088832) \<le> r1 - 7 / 10 * A" using assms(1,4) by linarith
  have b: "- (2 / 35184372088832) \<le> r2 - 3 / 10 * P" using assms(2,5) by linarith
  have c: "- (5 / 35184372088832) \<le> r3 - (7 / 10 * A + 3 / 10 * P)"
    using a b assms(3) by linarith
  have d: "(7 * A + 3 * P) / 10 = 7 / 10 * A + 3 / 10 * P" by (simp add: field_simps)
  show ?thesis unfolding d using c by linarith
qed

lemma round_window:
  fixes r N K :: rat
  assumes "r - N / 10 \<le> 1 / 20" "- (1 / 20) \<le> r - N / 10"
    "10 * K + 1 \<le> N + 5" "N + 5 \<le> 10 * K + 9"
  shows "K \<le> r + 1 / 2" "r + 1 / 2 < K + 1"
proof -
  have "K - 4 / 10 \<le> N / 10" "N / 10 \<le> K + 4 / 10"
    using assms(3,4) by linarith+
  with assms(1,2) show "K \<le> r + 1 / 2" "r + 1 / 2 < K + 1"
    by linarith+
qed

lemma div10_window:
  fixes n :: int
  assumes "n mod 10 \<noteq> 5"
  shows "10 * ((n + 5) div 10) + 1 \<le> n + 5" "n + 5 \<le> 10 * ((n + 5) div 10) + 9"
  using assms by presburger+

lemma blend_exact:
  fixes a p :: int
  assumes "0 \<le> a" "a \<le> 100" "0 \<le> p" "p \<le> 100" "(7 * a + 3 * p) mod 10 \<noteq> 5"
  shows "Math_round (num_add (num_mul (Num (of_int a)) recentWeight)
                             (num_mul (Num (of_int p)) historicalWeight)) =
         Num (of_int ((7 * a + 3 * p + 5) div 10))"
proof -
  define A :: rat where "A = of_int a"
  define P :: rat where "P = of_int p"
  define c7 :: rat where "c7 = 6305039478318694 / 9007199254740992"
  define c3 :: rat where "c3 = 5404319552844595 / 18014398509481984"
  define k where "k = (7 * a + 3 * p + 5) div 10"
  have eps: "pow2 (- 45) = 1 / 35184372088832" by (simp add: pow2_def)
  have A: "0 \<le> A" "A \<le> 100" using assms by (simp_all add: A_def)
  have P: "0 \<le> P" "P \<le> 100" using assms by (simp_all add: P_def)
  have x1: "A * c7 = 7 / 10 * A - A / 22517998136852480"
    unfolding c7_def by simp
  have x2: "P * c3 = 3 / 10 * P - P / 90071992547409920"
    unfolding c3_def by simp
  have "0 \<le> A * c7" "A * c7 \<le> 128" unfolding x1 using A by linarith+
  from fl_error [OF this] obtain r1 where
    r1: "fl (A * c7) = Num r1" "0 \<le> r1" "\<bar>r1 - A * c7\<bar> \<le> pow2 (- 45)"
    by blast
  have "0 \<le> P * c3" "P * c3 \<le> 128" unfolding x2 using P by linarith+
  from fl_error [OF this] obtain r2 where
    r2: "fl (P * c3) = Num r2" "0 \<le> r2" "\<bar>r2 - P * c3\<bar> \<le> pow2 (- 45)"
    by blast
  from r1(3) have b1: "r1 - (7 / 10 * A - A / 22517998136852480) \<le> 1 / 35184372088832"
    "- (1 / 35184372088832) \<le> r1 - (7 / 10 * A - A / 22517998136852480)"
    unfolding eps x1 by linarith+
  from r2(3) have b2: "r2 - (3 / 10 * P - P / 90071992547409920) \<le> 1 / 35184372088832"
    "- (1 / 35184372088832) \<le> r2 - (3 / 10 * P - P / 90071992547409920)"
    unfolding eps x2 by linarith+
  have "r1 \<le> 71" using b1(1) A by linarith
  moreover have "r2 \<le> 31" using b2(1) P by linarith
  ultimately have "r1 + r2 \<le> 128" by linarith
  moreover have "0 \<le> r1 + r2" using r1(2) r2(2) by linarith
  ultimately obtain r3 where
    r3: "fl (r1 + r2) = Num r3" "\<bar>r3 - (r1 + r2)\<bar> \<le> pow2 (- 45)"
    using fl_error [of "r1 + r2"] by blast
  from r3(2) have b3: "r3 - (r1 + r2) \<le> 1 / 35184372088832"
    "- (1 / 35184372088832) \<le> r3 - (r1 + r2)"
    unfolding eps by linarith+
  have close: "r3 - (7 * A + 3 * P) / 10 \<le> 1 / 20"
    "- (1 / 20) \<le> r3 - (7 * A + 3 * P) / 10"
    by (rule blend_error_upper [OF b1(1) b2(1) b3(1) A(1) P(1)])
       (rule blend_error_lower [OF b1(2) b2(2) b3(2) A(2) P(2)])
  from div10_window [OF assms(5)]
  have "10 * k + 1 \<le> 7 * a + 3 * p + 5" "7 * a + 3 * p + 5 \<le> 10 * k + 9"
    unfolding k_def by this+
  then have "(of_int (10 * k + 1) :: rat) \<le> of_int (7 * a + 3 * p + 5)"
    "(of_int (7 * a + 3 * p + 5) :: rat) \<le> of_int (10 * k + 9)"
    by (simp_all only: of_int_le_iff)
  then have b: "10 * of_int k + 1 \<le> 7 * A + 3 * P + 5"
    "7 * A + 3 * P + 5 \<le> 10 * of_int k + 9"
    unfolding A_def P_def by simp_all
  have "of_int k \<le> r3 + 1 / 2" "r3 + 1 / 2 < of_int k + 1"
    by (rule round_window [OF close b])+
  then have "\<lfloor>r3 + 1 / 2\<rfloor> = k"
    by (simp only: floor_eq_iff)
  then have "Math_round (Num r3) = Num (of_int k)"
    by simp
  moreover have "num_mul (Num (of_int a)) recentWeight = Num r1"
    using r1(1) unfolding A_def c7_def by (simp only: weights num_mul.simps)
  moreover have "num_mul (Num (of_int p)) historicalWeight = Num r2"
    using r2(1) unfolding P_def c3_def by (simp only: weights num_mul.simps)
  moreover have "num_add (Num r1) (Num r2) = Num r3"
    using r3(1) by (simp only: num_add.simps)
  ultimately show ?thesis
    unfolding k_def by (simp only:)
qed

lemma blend_tenths:
  "(7 / 10 * of_int avg + 3 / 10 * of_int prev + 1 / 2 :: rat) =
     of_int (7 * avg + 3 * prev + 5) / of_int 10"
  by (simp add: field_simps)

lemma mastery_formula_spec_div: "mastery_formula_spec avg prev = (7 * avg + 3 * prev + 5) div 10"
  unfolding mastery_formula_spec_def blend_tenths by (rule floor_divide_of_int_eq)

lemma tenths_integer:
  fixes m :: int
  shows "(of_int (m + 5) / of_int 10 :: rat) \<in> \<int> \<longleftrightarrow> m mod 10 = 5"
proof
  assume "(of_int (m + 5) / of_int 10 :: rat) \<in> \<int>"
  then obtain z where "(of_int (m + 5) / of_int 10 :: rat) = of_int z"
    by (auto elim: Ints_cases)
  then have "(of_int (m + 5) :: rat) = of_int (10 * z)" by simp
  then have "m + 5 = 10 * z" by (simp only: of_int_eq_iff)
  then show "m mod 10 = 5" by presburger
next
  assume "m mod 10 = 5"
  then have "10 dvd (m + 5)" by presburger
  then obtain z where z: "m + 5 = 10 * z" by (auto elim: dvdE)
  have "(of_int (m + 5) / of_int 10 :: rat) = of_int z"
    unfolding z by simp
  then show "(of_int (m + 5) / of_int 10 :: rat) \<in> \<int>"
    by (simp only: Ints_of_int)
qed

lemma blend_halfway_half_integer:
  "blend_halfway avg prev \<longleftrightarrow>
     (7 / 10 * of_int avg + 3 / 10 * of_int prev + 1 / 2 :: rat) \<in> \<int>"
  unfolding blend_halfway_def blend_tenths using tenths_integer [of "7 * avg + 3 * prev"]
  by (simp only:)

text \<open>
  C2.  After \<open>updateMasteryFromQuiz\<close> the mastery score is
  \<open>Math.round(averageQuizScore * 0.7 + masteryScore * 0.3)\<close> of the new average and the
  previous mastery score, evaluated in double arithmetic, and the new average is
  \<open>Math.round\<close> of the mean of the scores in the ring buffer as it is after the call.  For
  an average and a previous score that are integers from 0 to 100 this is
  round(0.7 \<times> average + 0.3 \<times> previous) of exact arithmetic, unless that blend lies halfway
  between two integers.  From a new record (mastery score 0) the quiz score 90 gives 63,
  and a second quiz score 90 gives 82.
\<close>

theorem mastery_score_formula:
  "masteryScore (updateMasteryFromQuiz this q i d t n) =
     Math_round (num_add
        (num_mul (averageQuizScore (updateMasteryFromQuiz this q i d t n)) (fl (7 / 10)))
        (num_mul (masteryScore this) (fl (3 / 10)))) \<and>
   averageQuizScore (updateMasteryFromQuiz this q i d t n) =
     Math_round (num_div
        (foldl (\<lambda>sum r. num_add sum (rq_score r)) (Num 0)
           (recentQuizzes (updateMasteryFromQuiz this q i d t n)))
        (Num (of_nat (length (recentQuizzes (updateMasteryFromQuiz this q i d t n)))))) \<and>
   (averageQuizScore (updateMasteryFromQuiz this q i d t n) = Num (of_int avg) \<and>
    masteryScore this = Num (of_int prev) \<and>
    0 \<le> avg \<and> avg \<le> 100 \<and> 0 \<le> prev \<and> prev \<le> 100 \<and> \<not> blend_halfway avg prev \<longrightarrow>
      masteryScore (updateMasteryFromQuiz this q i d t n) =
        Num (of_int (mastery_formula_spec avg prev))) \<and>
   masteryScore (new_TopicMastery name) = Num 0 \<and>
   masteryScore (updateMasteryFromQuiz (new_TopicMastery name) (Num 90) i d t n) = Num 63 \<and>
   masteryScore (updateMasteryFromQuiz
      (updateMasteryFromQuiz (new_TopicMastery name) (Num 90) i d t n)
      (Num 90) i' d' t' n') = Num 82"
proof -
  let ?that = "updateMasteryFromQuiz this q i d t n"
  have f: "masteryScore ?that =
     Math_round (num_add (num_mul (averageQuizScore ?that) recentWeight)
        (num_mul (masteryScore this) historicalWeight))"
    by (rule masteryScore_update)
  have g1: "masteryScore ?that =
     Math_round (num_add (num_mul (averageQuizScore ?that) (fl (7 / 10)))
        (num_mul (masteryScore this) (fl (3 / 10))))"
    using f by (simp only: recentWeight_def historicalWeight_def)
  have g2: "averageQuizScore ?that =
     Math_round (num_div
        (foldl (\<lambda>sum r. num_add sum (rq_score r)) (Num 0) (recentQuizzes ?that))
        (Num (of_nat (length (recentQuizzes ?that)))))"
    using averageQuizScore_update [of this q i d t n] by (simp add: totalScore_def)
  have g3: "averageQuizScore ?that = Num (of_int avg) \<and>
    masteryScore this = Num (of_int prev) \<and>
    0 \<le> avg \<and> avg \<le> 100 \<and> 0 \<le> prev \<and> prev \<le> 100 \<and> \<not> blend_halfway avg prev \<longrightarrow>
      masteryScore ?that = Num (of_int (mastery_formula_spec avg prev))"
  proof (intro impI, elim conjE)
    assume h: "averageQuizScore ?that = Num (of_int avg)" "masteryScore this = Num (of_int prev)"
      "0 \<le> avg" "avg \<le> 100" "0 \<le> prev" "prev \<le> 100" "\<not> blend_halfway avg prev"
    from h(7) have "(7 * avg + 3 * prev) mod 10 \<noteq> 5" unfolding blend_halfway_def .
    from blend_exact [OF h(3-6) this]
    show "masteryScore ?that = Num (of_int (mastery_formula_spec avg prev))"
      unfolding f h(1,2) mastery_formula_spec_div .
  qed
  have g4: "masteryScore (new_TopicMastery name) = Num 0"
    by (simp add: new_TopicMastery_def)
  have g5: "masteryScore (updateMasteryFromQuiz (new_TopicMastery name) (Num 90) i d t n) =
      Num 63"
    by (simp add: topic_mastery_eval cong: let_weak_cong)
  have g6: "masteryScore (updateMasteryFromQuiz
      (updateMasteryFromQuiz (new_TopicMastery name) (Num 90) i d t n)
      (Num 90) i' d' t' n') = Num 82"
    by (simp add: topic_mastery_eval cong: let_weak_cong)
  show ?thesis
    using g1 g2 g3 g4 g5 g6 by - (intro conjI, assumption+)
qed

theorem mastery_score_formula_witness:
  "averageQuizScore (updateMasteryFromQuiz (new_TopicMastery ''Signals'') (Num 90)
      ''quiz-1'' ''medium'' (Num 12) 1000) = Num 90 \<and>
   masteryScore (new_TopicMastery ''Signals'') = Num 0 \<and>
   \<not> blend_halfway 90 0 \<and>
   mastery_formula_spec 90 0 = 63 \<and>
   masteryScore (updateMasteryFromQuiz (new_TopicMastery ''Signals'') (Num 90)
      ''quiz-1'' ''medium'' (Num 12) 1000) = Num (of_int (mastery_formula_spec 90 0))"
proof -
  have a: "averageQuizScore (updateMasteryFromQuiz (new_TopicMastery ''Signals'') (Num 90)
      ''quiz-1'' ''medium'' (Num 12) 1000) = Num (of_int 90)"
    by (simp add: topic_mastery_eval cong: let_weak_cong)
  have b: "masteryScore (new_TopicMastery ''Signals'') = Num (of_int 0)"
    by (simp add: new_TopicMastery_def)
  have c: "\<not> blend_halfway 90 0" by (simp add: blend_halfway_def)
  have d: "mastery_formula_spec 90 0 = 63" by (simp add: mastery_formula_spec_div)
  have e: "masteryScore (updateMasteryFromQuiz (new_TopicMastery ''Signals'') (Num 90)
      ''quiz-1'' ''medium'' (Num 12) 1000) = Num (of_int (mastery_formula_spec 90 0))"
    by (rule mastery_score_formula [of "new_TopicMastery ''Signals''" "Num 90" "''quiz-1''"
          "''medium''" "Num 12" 1000 90 0,
          THEN conjunct2, THEN conjunct2, THEN conjunct1, THEN mp])
       (use a b c in simp)
  from a b c d e show ?thesis by simp
qed

text \<open>
  C2 as it is worded fails on a tie: on a new record the quiz score 45 has the exact blend
  31.5, which rounds to 32, but 45 \<times> 0.7 is the double 31.499999999999996 and the code
  stores 31.
\<close>

theorem mastery_tie_counterexample:
  "masteryScore (new_TopicMastery ''Signals'') = Num 0 \<and>
   averageQuizScore (updateMasteryFromQuiz (new_TopicMastery ''Signals'') (Num 45)
      ''quiz-1'' ''medium'' (Num 12) 1000) = Num 45 \<and>
   mastery_formula_spec 45 0 = 32 \<and>
   masteryScore (updateMasteryFromQuiz (new_TopicMastery ''Signals'') (Num 45)
      ''quiz-1'' ''medium'' (Num 12) 1000) = Num 31 \<and>
   masteryScore (updateMasteryFromQuiz (new_TopicMastery ''Signals'') (Num 45)
      ''quiz-1'' ''medium'' (Num 12) 1000) \<noteq> Num (of_int (mastery_formula_spec 45 0))"
proof -
  have a: "mastery_formula_spec 45 0 = 32" by (simp add: mastery_formula_spec_div)
  have b: "averageQuizScore (updateMasteryFromQuiz (new_TopicMastery ''Signals'') (Num 45)
      ''quiz-1'' ''medium'' (Num 12) 1000) = Num 45"
    by (simp add: topic_mastery_eval cong: let_weak_cong)
  have c: "masteryScore (updateMasteryFromQuiz (new_TopicMastery ''Signals'') (Num 45)
      ''quiz-1'' ''medium'' (Num 12) 1000) = Num 31"
    by (simp add: topic_mastery_eval cong: let_weak_cong)
  have d: "masteryScore (new_TopicMastery ''Signals'') = Num 0"
    by (simp add: new_TopicMastery_def)
  have e: "Num 31 \<noteq> Num (of_int (mastery_formula_spec 45 0))"
    unfolding a by simp
  from a b c d e show ?thesis by (simp only: simp_thms)
qed
section \<open>Properties of LearningMemory\<close>

lemma findIndex_Some:
  "findIndex P xs = Some k \<Longrightarrow> k < length xs \<and> P (xs ! k) \<and> (\<forall>j<k. \<not> P (xs ! j))"
proof (induction xs arbitrary: k)
  case Nil
  then show ?case by simp
next
  case (Cons x xs)
  show ?case
  proof (cases "P x")
    case True
    with Cons.prems show ?thesis by simp
  next
    case False
    with Cons.prems obtain k' where k': "findIndex P xs = Some k'" "k = Suc k'"
      by auto
    from Cons.IH [OF k'(1)] False k'(2) show ?thesis
      by (auto simp: less_Suc_eq_0_disj)
  qed
qed

lemma findIndex_None: "findIndex P xs = None \<longleftrightarrow> (\<forall>x\<in>set xs. \<not> P x)"
  by (induction xs) auto

lemma findIndex_update_same:
  "findIndex P xs = Some k \<Longrightarrow> P y \<Longrightarrow> findIndex P (xs[k := y]) = Some k"
proof (induction xs arbitrary: k)
  case Nil
  then show ?case by simp
next
  case (Cons x xs)
  then show ?case
    by (cases "P x") (auto split: nat.splits)
qed

lemma recordMistake_open:
  assumes "findIndex (open_for d) (mistakeLog this) = Some k"
  shows "mistakeLog (recordMistake this d newId now) =
     (mistakeLog this)[k := (mistakeLog this ! k)
        \<lparr>occurrenceCount := occurrenceCount (mistakeLog this ! k) + 1, lastOccurredAt := now\<rparr>]"
  using assms by (simp add: recordMistake_def open_for_def [abs_def])

lemma recordMistake_none:
  assumes "findIndex (open_for d) (mistakeLog this) = None"
  shows "mistakeLog (recordMistake this d newId now) = mistakeLog this @
     [\<lparr>mistakeId = newId, topic = md_topic d, concept = md_concept d,
       mistakeDescription = md_mistakeDescription d, correctAnswer = md_correctAnswer d,
       firstOccurredAt = now, lastOccurredAt = now, occurrenceCount = 1,
       isCorrected = False, correctedAt = None, reviewedCount = 0\<rparr>]"
  using assms by (simp add: recordMistake_def open_for_def [abs_def])

lemma recordMistake_keeps_corrected:
  assumes "j < length (mistakeLog this)" "isCorrected (mistakeLog this ! j)"
  shows "mistakeLog (recordMistake this d newId now) ! j = mistakeLog this ! j"
proof (cases "findIndex (open_for d) (mistakeLog this)")
  case None
  with assms show ?thesis by (simp add: recordMistake_none nth_append)
next
  case (Some k)
  from findIndex_Some [OF Some] assms have "k \<noteq> j"
    by (auto simp: open_for_def)
  with Some assms show ?thesis by (simp add: recordMistake_open)
qed

lemma correctMistake_keeps_corrected:
  assumes "j < length (mistakeLog this)" "isCorrected (mistakeLog this ! j)"
  shows "j < length (mistakeLog (correctMistake this mid now)) \<and>
         isCorrected (mistakeLog (correctMistake this mid now) ! j)"
  using assms
  by (auto simp: correctMistake_def nth_list_update split: option.splits dest: findIndex_Some)

lemma correctMistake_corrected:
  assumes "findIndex (\<lambda>m. mistakeId m = mid) (mistakeLog this) = Some i"
    "isCorrected (mistakeLog this ! i)"
  shows "correctMistake this mid now = this"
  using assms by (simp add: correctMistake_def)

lemmas memory_eval =
  recordMistake_def correctMistake_def new_LearningMemory_def fourier_mistake_def
  corrected_memory_def repeated_memory_def open_for_def

lemma corrected_memory_log:
  "mistakeLog corrected_memory =
     [\<lparr>mistakeId = ''m1'', topic = ''Signals'', concept = ''Fourier series'',
       mistakeDescription = ''sign of the exponent'', correctAnswer = ''negative'',
       firstOccurredAt = 10, lastOccurredAt = 10, occurrenceCount = 1,
       isCorrected = True, correctedAt = Some 20, reviewedCount = 0\<rparr>]"
  by (simp add: memory_eval)

text \<open>
  C10, as stated, fails.  The mistake on (Signals, Fourier series) has an entry, which is
  corrected; recording the same mistake again leaves the counter of that entry at 1 and
  appends a second entry for the same topic and concept.
\<close>

theorem mistake_log_duplicate_counterexample:
  "mistakeLog (recordMistake corrected_memory fourier_mistake ''m2'' 30) =
     [\<lparr>mistakeId = ''m1'', topic = ''Signals'', concept = ''Fourier series'',
       mistakeDescription = ''sign of the exponent'', correctAnswer = ''negative'',
       firstOccurredAt = 10, lastOccurredAt = 10, occurrenceCount = 1,
       isCorrected = True, correctedAt = Some 20, reviewedCount = 0\<rparr>,
      \<lparr>mistakeId = ''m2'', topic = ''Signals'', concept = ''Fourier series'',
       mistakeDescription = ''sign of the exponent'', correctAnswer = ''negative'',
       firstOccurredAt = 30, lastOccurredAt = 30, occurrenceCount = 1,
       isCorrected = False, correctedAt = None, reviewedCount = 0\<rparr>]"
  by (simp add: memory_eval)

text \<open>
  C10, amended.  The log is deduplicated among the open entries.  When the topic and
  concept of the mistake have an open entry, \<open>recordMistake\<close> adds 1 to the counter of the
  first such entry, sets its last occurrence and changes nothing else; when they have no
  open entry (none at all, or corrected ones only) it appends a new open entry with the
  counter 1.  A corrected entry stays as it is under \<open>recordMistake\<close> and stays corrected
  under \<open>correctMistake\<close>, and \<open>correctMistake\<close> with an identifier whose entries are all
  corrected changes nothing.
\<close>

theorem mistake_log_open_dedup:
  "((\<exists>m\<in>set (mistakeLog this). open_for d m) \<longrightarrow>
      (\<exists>k<length (mistakeLog this).
         open_for d (mistakeLog this ! k) \<and>
         (\<forall>j<k. \<not> open_for d (mistakeLog this ! j)) \<and>
         mistakeLog (recordMistake this d newId now) =
           (mistakeLog this)[k := (mistakeLog this ! k)
              \<lparr>occurrenceCount := occurrenceCount (mistakeLog this ! k) + 1,
               lastOccurredAt := now\<rparr>])) \<and>
   ((\<forall>m\<in>set (mistakeLog this). \<not> open_for d m) \<longrightarrow>
      mistakeLog (recordMistake this d newId now) = mistakeLog this @
        [\<lparr>mistakeId = newId, topic = md_topic d, concept = md_concept d,
          mistakeDescription = md_mistakeDescription d, correctAnswer = md_correctAnswer d,
          firstOccurredAt = now, lastOccurredAt = now, occurrenceCount = 1,
          isCorrected = False, correctedAt = None, reviewedCount = 0\<rparr>]) \<and>
   (j < length (mistakeLog this) \<and> isCorrected (mistakeLog this ! j) \<longrightarrow>
      mistakeLog (recordMistake this d newId now) ! j = mistakeLog this ! j \<and>
      isCorrected (mistakeLog (correctMistake this mid now) ! j)) \<and>
   ((\<forall>m\<in>set (mistakeLog this). mistakeId m = mid \<longrightarrow> isCorrected m) \<longrightarrow>
      correctMistake this mid now = this)"
proof (intro conjI impI)
  assume "\<exists>m\<in>set (mistakeLog this). open_for d m"
  then obtain k where k: "findIndex (open_for d) (mistakeLog this) = Some k"
    using findIndex_None [of "open_for d" "mistakeLog this"] by fastforce
  from findIndex_Some [OF k] recordMistake_open [OF k]
  show "\<exists>k<length (mistakeLog this).
         open_for d (mistakeLog this ! k) \<and>
         (\<forall>j<k. \<not> open_for d (mistakeLog this ! j)) \<and>
         mistakeLog (recordMistake this d newId now) =
           (mistakeLog this)[k := (mistakeLog this ! k)
              \<lparr>occurrenceCount := occurrenceCount (mistakeLog this ! k) + 1,
               lastOccurredAt := now\<rparr>]"
    by blast
next
  assume "\<forall>m\<in>set (mistakeLog this). \<not> open_for d m"
  then have "findIndex (open_for d) (mistakeLog this) = None"
    by (simp add: findIndex_None)
  then show "mistakeLog (recordMistake this d newId now) = mistakeLog this @
        [\<lparr>mistakeId = newId, topic = md_topic d, concept = md_concept d,
          mistakeDescription = md_mistakeDescription d, correctAnswer = md_correctAnswer d,
          firstOccurredAt = now, lastOccurredAt = now, occurrenceCount = 1,
          isCorrected = False, correctedAt = None, reviewedCount = 0\<rparr>]"
    by (rule recordMistake_none)
next
  assume "j < length (mistakeLog this) \<and> isCorrected (mistakeLog this ! j)"
  then show "mistakeLog (recordMistake this d newId now) ! j = mistakeLog this ! j"
    by (simp add: recordMistake_keeps_corrected)
next
  assume "j < length (mistakeLog this) \<and> isCorrected (mistakeLog this ! j)"
  then show "isCorrected (mistakeLog (correctMistake this mid now) ! j)"
    by (simp add: correctMistake_keeps_corrected)
next
  assume a: "\<forall>m\<in>set (mistakeLog this). mistakeId m = mid \<longrightarrow> isCorrected m"
  show "correctMistake this mid now = this"
  proof (cases "findIndex (\<lambda>m. mistakeId m = mid) (mistakeLog this)")
    case None
    then show ?thesis by (simp add: correctMistake_def)
  next
    case (Some i)
    from findIndex_Some [OF Some] a have "isCorrected (mistakeLog this ! i)"
      by simp
    with Some show ?thesis by (rule correctMistake_corrected)
  qed
qed

lemma repeated_memory_log:
  "mistakeLog repeated_memory =
     [\<lparr>mistakeId = ''m1'', topic = ''Signals'', concept = ''Fourier series'',
       mistakeDescription = ''sign of the exponent'', correctAnswer = ''negative'',
       firstOccurredAt = 10, lastOccurredAt = 10, occurrenceCount = 1,
       isCorrected = True, correctedAt = Some 20, reviewedCount = 0\<rparr>,
      \<lparr>mistakeId = ''m2'', topic = ''Signals'', concept = ''Fourier series'',
       mistakeDescription = ''sign of the exponent'', correctAnswer = ''negative'',
       firstOccurredAt = 30, lastOccurredAt = 30, occurrenceCount = 1,
       isCorrected = False, correctedAt = None, reviewedCount = 0\<rparr>]"
  by (simp add: memory_eval)

theorem mistake_log_open_dedup_witness:
  "(\<exists>m\<in>set (mistakeLog repeated_memory). open_for fourier_mistake m) \<and>
   map occurrenceCount (mistakeLog (recordMistake repeated_memory fourier_mistake ''m3'' 40))
     = [1, 2] \<and>
   filter (open_for fourier_mistake) (mistakeLog corrected_memory) = [] \<and>
   map isCorrected (mistakeLog (recordMistake corrected_memory fourier_mistake ''m2'' 30))
     = [True, False] \<and>
   0 < length (mistakeLog repeated_memory) \<and> isCorrected (mistakeLog repeated_memory ! 0) \<and>
   isCorrected (mistakeLog (correctMistake repeated_memory ''m2'' 40) ! 0) \<and>
   map isCorrected (filter (\<lambda>m. mistakeId m = ''m1'') (mistakeLog repeated_memory)) = [True] \<and>
   correctMistake repeated_memory ''m1'' 40 = repeated_memory"
proof -
  note t1 = mistake_log_open_dedup
    [where this = repeated_memory and d = fourier_mistake and newId = "''m3''" and now = 40
       and j = 0 and mid = "''m2''"]
  note t2 = mistake_log_open_dedup
    [where this = corrected_memory and d = fourier_mistake and newId = "''m2''" and now = 30
       and j = 0 and mid = "''m1''"]
  note t3 = mistake_log_open_dedup
    [where this = repeated_memory and d = fourier_mistake and newId = "''m3''" and now = 40
       and j = 0 and mid = "''m1''"]
  have h1: "\<exists>m\<in>set (mistakeLog repeated_memory). open_for fourier_mistake m"
    by (simp add: repeated_memory_log open_for_def fourier_mistake_def)
  have h2: "\<forall>m\<in>set (mistakeLog corrected_memory). \<not> open_for fourier_mistake m"
    by (simp add: corrected_memory_log open_for_def)
  have h3: "0 < length (mistakeLog repeated_memory) \<and> isCorrected (mistakeLog repeated_memory ! 0)"
    by (simp add: repeated_memory_log)
  have h4: "\<forall>m\<in>set (mistakeLog repeated_memory). mistakeId m = ''m1'' \<longrightarrow> isCorrected m"
    by (simp add: repeated_memory_log)
  from t1 h1 obtain k where k: "k < length (mistakeLog repeated_memory)"
    "open_for fourier_mistake (mistakeLog repeated_memory ! k)"
    "mistakeLog (recordMistake repeated_memory fourier_mistake ''m3'' 40) =
       (mistakeLog repeated_memory)[k := (mistakeLog repeated_memory ! k)
          \<lparr>occurrenceCount := occurrenceCount (mistakeLog repeated_memory ! k) + 1,
           lastOccurredAt := 40\<rparr>]"
    by blast
  from k(1,2) have "k = 1"
    by (cases k) (simp_all add: repeated_memory_log open_for_def)
  with k(3) have c1: "map occurrenceCount
      (mistakeLog (recordMistake repeated_memory fourier_mistake ''m3'' 40)) = [1, 2]"
    by (simp add: repeated_memory_log)
  from t2 h2 have c2: "map isCorrected
      (mistakeLog (recordMistake corrected_memory fourier_mistake ''m2'' 30)) = [True, False]"
    by (simp add: corrected_memory_log)
  from t1 h3 have c3: "isCorrected (mistakeLog (correctMistake repeated_memory ''m2'' 40) ! 0)"
    by blast
  from t3 h4 have c4: "correctMistake repeated_memory ''m1'' 40 = repeated_memory"
    by blast
  have h2': "filter (open_for fourier_mistake) (mistakeLog corrected_memory) = []"
    by (simp add: corrected_memory_log open_for_def)
  have h4': "map isCorrected (filter (\<lambda>m. mistakeId m = ''m1'') (mistakeLog repeated_memory))
      = [True]"
    by (simp add: repeated_memory_log)
  from h1 c1 h2' c2 h3 c3 h4' c4 show ?thesis
    by blast
qed

section \<open>Properties of LearningAgent\<close>

lemma replan_unfold:
  "selfReflectAndReplan (Some m) (Some p) masteries now =
     (if weak_of masteries = [] then ((Some m, Some p), Solid)
      else case findIndex not_completed (weeks p) of
        None \<Rightarrow> ((Some m, Some p), Solid)
      | Some i \<Rightarrow>
          if review_task masteries \<in> set (tasks (weeks p ! i))
          then ((Some m, Some p), Solid)
          else ((Some (m\<lparr>planAdjustments := planAdjustments m @
                    [\<lparr>adjustmentDate = now, reason = ''weak-topic-repeat'',
                      topicsAffected = [topicName (hd (weak_of masteries))],
                      automatedBy = ''copilot-recommendation''\<rparr>]\<rparr>),
                 Some (p\<lparr>weeks := (weeks p)[i := (weeks p ! i)
                    \<lparr>tasks := tasks (weeks p ! i) @ [review_task masteries]\<rparr>]\<rparr>)),
                Adjusted (weekNumber (weeks p ! i)) (topicName (hd (weak_of masteries)))))"
  by (simp add: selfReflectAndReplan_def weak_of_def review_task_def Let_def
        split: option.splits)

lemma replan_no_records:
  "memory = None \<or> plan = None \<Longrightarrow>
   selfReflectAndReplan memory plan masteries now = ((memory, plan), Null)"
  by (auto simp: selfReflectAndReplan_def split: option.splits)

lemma replan_present:
  assumes "weak_of masteries \<noteq> []" "findIndex not_completed (weeks p) = Some i"
    "review_task masteries \<in> set (tasks (weeks p ! i))"
  shows "selfReflectAndReplan (Some m) (Some p) masteries now = ((Some m, Some p), Solid)"
  using assms by (simp add: replan_unfold)

lemma replan_second_call:
  "selfReflectAndReplan (fst (fst (selfReflectAndReplan memory plan masteries now)))
       (snd (fst (selfReflectAndReplan memory plan masteries now))) masteries now' =
     (fst (selfReflectAndReplan memory plan masteries now),
      if memory = None \<or> plan = None then Null else Solid)"
proof (cases "memory = None \<or> plan = None")
  case True
  then show ?thesis by (simp add: replan_no_records)
next
  case False
  then obtain m p where mp: "memory = Some m" "plan = Some p" by auto
  show ?thesis
  proof (cases "weak_of masteries = []")
    case True
    with mp show ?thesis by (simp add: replan_unfold)
  next
    case weak: False
    show ?thesis
    proof (cases "findIndex not_completed (weeks p)")
      case None
      with mp weak show ?thesis by (simp add: replan_unfold)
    next
      case (Some i)
      show ?thesis
      proof (cases "review_task masteries \<in> set (tasks (weeks p ! i))")
        case True
        with mp weak Some show ?thesis by (simp add: replan_unfold)
      next
        case False
        from findIndex_Some [OF Some] have i: "i < length (weeks p)" "not_completed (weeks p ! i)"
          by simp_all
        let ?w = "(weeks p ! i)\<lparr>tasks := tasks (weeks p ! i) @ [review_task masteries]\<rparr>"
        from i(2) have "not_completed ?w" by (simp add: not_completed_def)
        from findIndex_update_same [OF Some this]
        have "findIndex not_completed ((weeks p)[i := ?w]) = Some i" .
        with mp weak Some False i show ?thesis
          by (simp add: replan_unfold)
      qed
    qed
  qed
qed

lemma replan_twice_state:
  "fst (replan_twice memory plan masteries now now') =
     fst (selfReflectAndReplan memory plan masteries now)"
proof -
  obtain a b c where r: "selfReflectAndReplan memory plan masteries now = ((a, b), c)"
    by (metis prod.collapse)
  from replan_second_call [of memory plan masteries now now'] r show ?thesis
    by (simp add: replan_twice_def)
qed

text \<open>
  C4.  When the task list of the first week that is not completed already contains
  \<open>Review: <topic>\<close> for the first weak topic, \<open>selfReflectAndReplan\<close> changes neither
  the plan nor the memory, whose plan-adjustment log it would write.  In every state the
  second of two calls in a row changes nothing.  When the task is not yet in that list,
  after the two calls it is there once, at the end, and the log has one new entry.
\<close>

theorem replan_idempotent:
  "(weak_of masteries \<noteq> [] \<and> findIndex not_completed (weeks p) = Some i \<and>
    review_task masteries \<in> set (tasks (weeks p ! i)) \<longrightarrow>
      selfReflectAndReplan (Some m) (Some p) masteries now = ((Some m, Some p), Solid)) \<and>
   fst (replan_twice memory plan masteries now now') =
     fst (selfReflectAndReplan memory plan masteries now) \<and>
   (weak_of masteries \<noteq> [] \<and> findIndex not_completed (weeks p) = Some i \<and>
    review_task masteries \<notin> set (tasks (weeks p ! i)) \<longrightarrow>
      (\<exists>m2 p2. fst (replan_twice (Some m) (Some p) masteries now now') = (Some m2, Some p2) \<and>
         tasks (weeks p2 ! i) = tasks (weeks p ! i) @ [review_task masteries] \<and>
         count_list (tasks (weeks p2 ! i)) (review_task masteries) = 1 \<and>
         length (planAdjustments m2) = length (planAdjustments m) + 1))"
proof (intro conjI impI)
  assume "weak_of masteries \<noteq> [] \<and> findIndex not_completed (weeks p) = Some i \<and>
    review_task masteries \<in> set (tasks (weeks p ! i))"
  then show "selfReflectAndReplan (Some m) (Some p) masteries now = ((Some m, Some p), Solid)"
    by (simp add: replan_present)
next
  show "fst (replan_twice memory plan masteries now now') =
     fst (selfReflectAndReplan memory plan masteries now)"
    by (rule replan_twice_state)
next
  assume a: "weak_of masteries \<noteq> [] \<and> findIndex not_completed (weeks p) = Some i \<and>
    review_task masteries \<notin> set (tasks (weeks p ! i))"
  then have i: "i < length (weeks p)"
    using findIndex_Some by blast
  have "fst (replan_twice (Some m) (Some p) masteries now now') =
     fst (selfReflectAndReplan (Some m) (Some p) masteries now)"
    by (rule replan_twice_state)
  with a i show "\<exists>m2 p2. fst (replan_twice (Some m) (Some p) masteries now now') = (Some m2, Some p2) \<and>
         tasks (weeks p2 ! i) = tasks (weeks p ! i) @ [review_task masteries] \<and>
         count_list (tasks (weeks p2 ! i)) (review_task masteries) = 1 \<and>
         length (planAdjustments m2) = length (planAdjustments m) + 1"
    by (simp add: replan_unfold count_list_0_iff)
qed

lemma signals_weak_task:
  "weak_of signals_weak \<noteq> []" "review_task signals_weak = ''Review: Signals''"
  by (simp_all add: weak_of_def review_task_def signals_weak_def new_TopicMastery_def)

lemma two_week_plan_index:
  "findIndex not_completed (weeks two_week_plan) = Some 1"
  "findIndex not_completed (weeks reviewed_plan) = Some 1"
  by (simp_all add: two_week_plan_def reviewed_plan_def not_completed_def)

theorem replan_idempotent_witness:
  "weak_of signals_weak \<noteq> [] \<and>
   findIndex not_completed (weeks reviewed_plan) = Some 1 \<and>
   review_task signals_weak \<in> set (tasks (weeks reviewed_plan ! 1)) \<and>
   selfReflectAndReplan (Some new_LearningMemory) (Some reviewed_plan) signals_weak 7 =
     ((Some new_LearningMemory, Some reviewed_plan), Solid) \<and>
   findIndex not_completed (weeks two_week_plan) = Some 1 \<and>
   review_task signals_weak \<notin> set (tasks (weeks two_week_plan ! 1)) \<and>
   (\<exists>m2 p2. fst (replan_twice (Some new_LearningMemory) (Some two_week_plan) signals_weak 7 8)
        = (Some m2, Some p2) \<and>
      tasks (weeks p2 ! 1) = [''Read chapter 2'', ''Review: Signals''] \<and>
      length (planAdjustments m2) = 1)"
proof -
  have h1: "review_task signals_weak \<in> set (tasks (weeks reviewed_plan ! 1))"
    by (simp add: signals_weak_task reviewed_plan_def)
  have h2: "review_task signals_weak \<notin> set (tasks (weeks two_week_plan ! 1))"
    by (simp add: signals_weak_task two_week_plan_def)
  note a = replan_idempotent [where masteries = signals_weak and p = reviewed_plan and i = 1
      and m = new_LearningMemory and now = 7]
  note b = replan_idempotent [where masteries = signals_weak and p = two_week_plan and i = 1
      and m = new_LearningMemory and now = 7 and now' = 8]
  from a h1 signals_weak_task(1) two_week_plan_index(2)
  have c1: "selfReflectAndReplan (Some new_LearningMemory) (Some reviewed_plan) signals_weak 7 =
     ((Some new_LearningMemory, Some reviewed_plan), Solid)"
    by blast
  from b h2 signals_weak_task(1) two_week_plan_index(1)
  obtain m2 p2 where
    "fst (replan_twice (Some new_LearningMemory) (Some two_week_plan) signals_weak 7 8)
        = (Some m2, Some p2)"
    "tasks (weeks p2 ! 1) = tasks (weeks two_week_plan ! 1) @ [review_task signals_weak]"
    "length (planAdjustments m2) = length (planAdjustments new_LearningMemory) + 1"
    by blast
  then have c2: "\<exists>m2 p2. fst (replan_twice (Some new_LearningMemory) (Some two_week_plan)
        signals_weak 7 8) = (Some m2, Some p2) \<and>
      tasks (weeks p2 ! 1) = [''Read chapter 2'', ''Review: Signals''] \<and>
      length (planAdjustments m2) = 1"
    by (simp add: signals_weak_task two_week_plan_def new_LearningMemory_def)
  from signals_weak_task(1) two_week_plan_index h1 h2 c1 c2 show ?thesis
    by blast
qed

lemma push_object_raises: "push_copilotInteractions m (JsObject obj) = Inl CastError"
  by (simp add: push_copilotInteractions_def)

text \<open>
  C8.  For a learner who has a memory document \<open>processInteraction\<close> stores nothing and
  returns nothing: the push of the interaction object onto \<open>copilotInteractions\<close>, an
  array of strings by its schema, raises \<open>CastError\<close>.  The object that it tries to push
  holds \<open>reply.response\<close> as it is, all 501 characters of a reply of that length.  The
  other recorder of copilot interactions, \<open>answerQuestion\<close> of the copilot service, builds
  its object with the first 500 characters of the same reply, and fails at the same push.
  Without a memory document the caller receives the whole reply and nothing is stored.
\<close>

theorem agent_interaction_not_persisted:
  "processInteraction userMessage (Some m) recentMastery course queryEmbedding replyResponse now =
     Inl CastError \<and>
   processInteraction ''What is a signal?'' (Some new_LearningMemory) [] None None
     long_reply 0 = Inl CastError \<and>
   length long_reply = 501 \<and>
   response (agent_interaction ''What is a signal?'' long_reply 0) = long_reply \<and>
   answerQuestion_record new_LearningMemory ''What is a signal?'' [] long_reply 0 =
     Inl CastError \<and>
   response (answerQuestion_interaction ''What is a signal?'' [] long_reply 0) =
     take 500 long_reply \<and>
   length (take 500 long_reply) = 500 \<and>
   processInteraction ''What is a signal?'' None [] None None long_reply 0 =
     Inr (None, \<lparr>reply = long_reply, contextUsed = [],
                 suggestedNextStep = ''Continue current module''\<rparr>)"
proof -
  have a: "processInteraction msg (Some mem) rm c qe r t = Inl CastError" for msg mem rm c qe r t
    by (simp add: processInteraction_def push_object_raises Let_def)
  have b: "answerQuestion_record new_LearningMemory ''What is a signal?'' [] long_reply 0 =
      Inl CastError"
    by (simp add: answerQuestion_record_def push_object_raises)
  have c: "length long_reply = 501" "length (take 500 long_reply) = 500"
    by (simp_all add: long_reply_def)
  have d: "response (agent_interaction ''What is a signal?'' long_reply 0) = long_reply"
    "response (answerQuestion_interaction ''What is a signal?'' [] long_reply 0) =
       take 500 long_reply"
    by (simp_all add: agent_interaction_def answerQuestion_interaction_def)
  have e: "processInteraction ''What is a signal?'' None [] None None long_reply 0 =
     Inr (None, \<lparr>reply = long_reply, contextUsed = [],
                 suggestedNextStep = ''Continue current module''\<rparr>)"
    by (simp add: processInteraction_def retrieveRelevantChunks_def determineNextAction_def
          Let_def)
  from a b c d e show ?thesis by (simp only: simp_thms)
qed
section \<open>Properties of AdaptiveQuiz\<close>

lemma recordAttempt_last:
  "percentageScore (last (userAttempts (recordAttempt this d))) =
     Math_round (num_mul
       (num_div (Num (of_int (int (length (filter isCorrect (ad_answers d))))))
          (totalQuestions this)) (Num 100))"
  "nextDifficultyRecommended (last (userAttempts (recordAttempt this d))) =
     calculateNextDifficulty this"
  by (simp_all add: recordAttempt_def Let_def)

lemma recordAttempt_attempts:
  "userAttempts (recordAttempt this d) \<noteq> []"
  "difficulty (recordAttempt this d) = difficulty this"
  "adaptiveDifficultyConfig (recordAttempt this d) = adaptiveDifficultyConfig this"
  "totalQuestions (recordAttempt this d) = totalQuestions this"
  by (simp_all add: recordAttempt_def Let_def)

text \<open>
  On a quiz whose difficulty is on the scale and whose adaptation is enabled,
  \<open>calculateNextDifficulty\<close> is the difficulty step of the percentage of the last attempt
  in \<open>userAttempts\<close>.
\<close>

lemma calculateNextDifficulty_step:
  assumes "enabled (adaptiveDifficultyConfig this)" "userAttempts this \<noteq> []"
    "difficulty this \<in> set difficultyProgression"
  shows "calculateNextDifficulty this =
     difficulty_step_spec this (percentageScore (last (userAttempts this)))"
proof -
  from assms(3) consider "difficulty this = ''easy''" | "difficulty this = ''medium''"
    | "difficulty this = ''hard''"
    by (auto simp: difficultyProgression_def)
  then show ?thesis
  proof cases
    case 1
    with assms(1,2) show ?thesis
      by (simp add: calculateNextDifficulty_def difficulty_step_spec_def difficultyProgression_def)
  next
    case 2
    with assms(1,2) show ?thesis
      by (simp add: calculateNextDifficulty_def difficulty_step_spec_def difficultyProgression_def)
  next
    case 3
    with assms(1,2) show ?thesis
      by (simp add: calculateNextDifficulty_def difficulty_step_spec_def difficultyProgression_def)
  qed
qed

text \<open>
  The recommendation stored with an attempt is computed before the attempt is pushed:
  it is the step of the attempt before it, and the unchanged difficulty of the quiz
  when there is none.
\<close>

lemma recommendation_of_previous_attempt:
  assumes "enabled (adaptiveDifficultyConfig this)"
    "difficulty this \<in> set difficultyProgression"
  shows "nextDifficultyRecommended (last (userAttempts (recordAttempt this d))) =
     (if userAttempts this = [] then difficulty this
      else difficulty_step_spec this (percentageScore (last (userAttempts this))))"
proof (cases "userAttempts this = []")
  case True
  then show ?thesis
    by (simp add: recordAttempt_last calculateNextDifficulty_def)
next
  case False
  with assms show ?thesis
    by (simp add: recordAttempt_last calculateNextDifficulty_step)
qed

lemma percentage_of_answers:
  "percentageScore (last (userAttempts (recordAttempt medium_quiz (answers_correct 17)))) = Num 85"
  "percentageScore (last (userAttempts
      (recordAttempt (recordAttempt medium_quiz (answers_correct 17)) (answers_correct 10))))
     = Num 50"
  by (simp_all add: recordAttempt_last recordAttempt_attempts medium_quiz_def
        answers_correct_def num_eval cong: let_weak_cong)

text \<open>
  C1.  The first attempt on a medium quiz with the thresholds 80 and 60 has the
  percentage 85, for which the difficulty step is hard; the recommendation stored with
  it is medium.  A second attempt has the percentage 50, for which the step is easy;
  the recommendation stored with it is hard, the step of the first attempt.
\<close>

theorem recommendation_ignores_own_score:
  "percentageScore (last (userAttempts (recordAttempt medium_quiz (answers_correct 17))))
     = Num 85 \<and>
   difficulty_step_spec medium_quiz (Num 85) = ''hard'' \<and>
   nextDifficultyRecommended (last (userAttempts (recordAttempt medium_quiz (answers_correct 17))))
     = ''medium'' \<and>
   percentageScore (last (userAttempts
      (recordAttempt (recordAttempt medium_quiz (answers_correct 17)) (answers_correct 10))))
     = Num 50 \<and>
   difficulty_step_spec (recordAttempt medium_quiz (answers_correct 17)) (Num 50) = ''easy'' \<and>
   nextDifficultyRecommended (last (userAttempts
      (recordAttempt (recordAttempt medium_quiz (answers_correct 17)) (answers_correct 10))))
     = ''hard''"
proof -
  have a: "nextDifficultyRecommended
      (last (userAttempts (recordAttempt medium_quiz (answers_correct 17)))) = ''medium''"
    by (simp add: recordAttempt_last calculateNextDifficulty_def medium_quiz_def)
  have e: "enabled (adaptiveDifficultyConfig (recordAttempt medium_quiz (answers_correct 17)))"
    "difficulty (recordAttempt medium_quiz (answers_correct 17)) \<in> set difficultyProgression"
    by (simp_all add: recordAttempt_attempts medium_quiz_def difficultyProgression_def)
  have "nextDifficultyRecommended (last (userAttempts
      (recordAttempt (recordAttempt medium_quiz (answers_correct 17)) (answers_correct 10))))
     = difficulty_step_spec (recordAttempt medium_quiz (answers_correct 17)) (Num 85)"
    by (simp add: recommendation_of_previous_attempt [OF e] recordAttempt_attempts
          percentage_of_answers)
  also have "\<dots> = ''hard''"
    by (simp add: difficulty_step_spec_def recordAttempt_attempts medium_quiz_def num_ge_def)
  finally have b: "nextDifficultyRecommended (last (userAttempts
      (recordAttempt (recordAttempt medium_quiz (answers_correct 17)) (answers_correct 10))))
     = ''hard''" .
  have c: "difficulty_step_spec medium_quiz (Num 85) = ''hard''"
    "difficulty_step_spec (recordAttempt medium_quiz (answers_correct 17)) (Num 50) = ''easy''"
    by (simp_all add: difficulty_step_spec_def recordAttempt_attempts medium_quiz_def num_ge_def)
  from a b c percentage_of_answers show ?thesis
    by simp
qed

section \<open>Properties of the chunker\<close>

lemma chunk_step_pair:
  "chunk_step k (acc, cur) s =
     (if int (length cur + length s) < k then (acc, cur @ s @ ''. '')
      else (acc @ [trim cur], s @ ''. ''))"
  by (simp add: chunk_step_def)

lemma foldl_chunk_step:
  "(case foldl (chunk_step (int target)) (acc, cur) ss of
      (acc', cur') \<Rightarrow> if cur' \<noteq> [] then acc' @ [trim cur'] else acc') =
   acc @ accumulate target cur ss"
proof (induction ss arbitrary: acc cur)
  case Nil
  then show ?case by simp
next
  case (Cons s ss)
  show ?case
    by (simp add: chunk_step_pair Cons.IH)
qed

lemma chunkText_spec: "chunkText txt (Some (int target)) = chunk_spec txt target"
  using foldl_chunk_step [of target "[]" "[]" "split_on is_terminal txt"]
  by (simp add: chunkText_def chunk_spec_def split: prod.splits)

lemma trim_trim: "trim (trim s) = trim s"
proof -
  let ?u = "dropWhile is_space s"
  let ?v = "dropWhile is_space (rev ?u)"
  show ?thesis
  proof (cases "?v = []")
    case True
    then have "trim s = []"
      unfolding trim_def by (simp only: rev.simps)
    moreover have "trim [] = []"
      by (simp add: trim_def)
    ultimately show ?thesis by simp
  next
    case False
    then have last: "\<not> is_space (hd ?v)"
      by (rule hd_dropWhile)
    from False have u: "?u \<noteq> []"
      by (metis dropWhile.simps(1) rev.simps(1))
    then have first: "\<not> is_space (hd ?u)"
      by (rule hd_dropWhile)
    have "rev ?u = takeWhile is_space (rev ?u) @ ?v"
      by simp
    then have "?u = rev ?v @ rev (takeWhile is_space (rev ?u))"
      by (metis rev_append rev_rev_ident)
    with False have "hd (rev ?v) = hd ?u"
      by (metis hd_append2 rev_is_Nil_conv)
    with first have a: "dropWhile is_space (rev ?v) = rev ?v"
      by (simp add: dropWhile_eq_self_iff)
    from last False have b: "dropWhile is_space ?v = ?v"
      by (simp add: dropWhile_eq_self_iff)
    show ?thesis
      by (simp add: trim_def a b)
  qed
qed

lemma accumulate_trimmed: "c \<in> set (accumulate target buf ss) \<Longrightarrow> trim c = c"
  by (induction ss arbitrary: buf) (auto simp: trim_trim split: if_splits)

lemma foldl_chunk_step_trimmed:
  "foldl (chunk_step k) (acc, cur) ss = (acc', cur') \<Longrightarrow>
   \<forall>c\<in>set acc. trim c = c \<Longrightarrow> \<forall>c\<in>set acc'. trim c = c"
proof (induction ss arbitrary: acc cur)
  case Nil
  then show ?case by simp
next
  case (Cons s ss)
  show ?case
  proof (cases "int (length cur + length s) < k")
    case True
    with Cons.prems have "foldl (chunk_step k) (acc, cur @ s @ ''. '') ss = (acc', cur')"
      by (simp add: chunk_step_pair)
    from Cons.IH [OF this Cons.prems(2)] show ?thesis .
  next
    case False
    with Cons.prems have f: "foldl (chunk_step k) (acc @ [trim cur], s @ ''. '') ss = (acc', cur')"
      by (simp add: chunk_step_pair)
    from Cons.prems(2) have "\<forall>c\<in>set (acc @ [trim cur]). trim c = c"
      by (simp add: trim_trim)
    from Cons.IH [OF f this] show ?thesis .
  qed
qed

lemma chunkText_trimmed: "c \<in> set (chunkText txt k) \<Longrightarrow> trim c = c"
proof -
  assume c: "c \<in> set (chunkText txt k)"
  obtain acc' cur' where f: "foldl (chunk_step (case k of None \<Rightarrow> 1000 | Some n \<Rightarrow> n)) ([], [])
        (split_on is_terminal txt) = (acc', cur')"
    by (metis surj_pair)
  from foldl_chunk_step_trimmed [OF f] have "\<forall>c\<in>set acc'. trim c = c"
    by simp
  with c f show ?thesis
    by (auto simp: chunkText_def trim_trim split: if_splits)
qed

lemma split_runs_concat:
  "concat (split_runs C piece r s) = piece @ filter (\<lambda>c. \<not> C c) s"
  by (induction s arbitrary: piece r) auto

lemma split_on_concat: "concat (split_on C s) = filter (\<lambda>c. \<not> C c) s"
  by (simp add: split_on_def split_runs_concat)

lemma split_on_free:
  assumes "p \<in> set (split_on C s)" "c \<in> set p"
  shows "\<not> C c"
proof -
  from assms have "c \<in> set (concat (split_on C s))"
    by auto
  then show ?thesis
    by (simp add: split_on_concat)
qed

lemma example_sentences:
  "split_on is_terminal ''Hi. How are you? Fine!'' = [''Hi'', '' How are you'', '' Fine'', '''']"
  by (simp add: split_on_def is_terminal_def)

lemma example_chunks:
  "chunk_spec ''Hi. How are you? Fine!'' 12 = [''Hi.'', ''How are you.'', ''Fine. .'']"
  by (simp add: chunk_spec_def example_sentences trim_def is_space_def)

lemma long_sentence_chunks:
  "chunk_spec ''aaaaaaaaaaaa'' 5 = ['''', ''aaaaaaaaaaaa.'']"
  by (simp add: chunk_spec_def split_on_def is_terminal_def trim_def is_space_def)

text \<open>
  C9.  \<open>chunkText\<close> is the greedy accumulation of the sentences that the specification
  describes: the text is split at the runs of \<open>.\<close>, \<open>!\<close> and \<open>?\<close> (the pieces hold, in
  order, exactly the other characters of the text); a sentence for which the length of
  the buffer plus its own length reaches or exceeds the target size makes the buffer a
  chunk and starts the next buffer; the last buffer is flushed at the end.  Every
  chunk is trimmed, the target size is 1000 when none is given, and a sentence longer
  than the target size gives a chunk longer than the target size: twelve letters with
  the target size 5 give an empty chunk and a chunk of 13 characters.
\<close>

theorem chunkText_greedy:
  "chunkText txt (Some (int target)) = chunk_spec txt target \<and>
   chunkText txt None = chunkText txt (Some 1000) \<and>
   concat (split_on is_terminal txt) = filter (\<lambda>c. \<not> is_terminal c) txt \<and>
   (\<forall>c\<in>set (chunkText txt k). trim c = c) \<and>
   chunkText ''aaaaaaaaaaaa'' (Some 5) = ['''', ''aaaaaaaaaaaa.'']"
proof -
  have "chunkText ''aaaaaaaaaaaa'' (Some (int 5)) = ['''', ''aaaaaaaaaaaa.'']"
    by (simp only: chunkText_spec long_sentence_chunks)
  then have "chunkText ''aaaaaaaaaaaa'' (Some 5) = ['''', ''aaaaaaaaaaaa.'']"
    by simp
  moreover have "chunkText txt None = chunkText txt (Some 1000)"
    by (simp add: chunkText_def)
  ultimately show ?thesis
    by (simp add: chunkText_spec split_on_concat chunkText_trimmed)
qed

theorem chunkText_greedy_witness:
  "chunkText ''Hi. How are you? Fine!'' (Some 12) = [''Hi.'', ''How are you.'', ''Fine. .''] \<and>
   length ''How are you.'' = 12 \<and>
   trim ''How are you.'' = ''How are you.''"
proof -
  note t = chunkText_greedy [of "''Hi. How are you? Fine!''" 12 "Some 12"]
  from t have a: "chunkText ''Hi. How are you? Fine!'' (Some 12) =
      [''Hi.'', ''How are you.'', ''Fine. .'']"
    by (simp add: example_chunks)
  from t have "\<forall>c\<in>set (chunkText ''Hi. How are you? Fine!'' (Some 12)). trim c = c"
    by blast
  with a have "trim ''How are you.'' = ''How are you.''"
    by simp
  with a show ?thesis by simp
qed

section \<open>Properties of the retrieval\<close>




lemma length_insert_by_score: "length (insert_by_score a bs) = Suc (length bs)"
  by (induction bs) simp_all

lemma length_sort_by_score: "length (sort_by_score xs) = length xs"
  by (induction xs) (simp_all add: sort_by_score_def length_insert_by_score)




lemma dot_snoc:
  "length a = length b \<Longrightarrow> dot (a @ [x]) (b @ [y]) = num_add (dot a b) (num_mul x y)"
  by (simp add: dot_def)

lemma cosine_step_triple:
  "cosine_step e c (d, a, b) i =
     (num_add d (num_mul (elem_at e i) (elem_at c i)),
      num_add a (num_mul (elem_at e i) (elem_at e i)),
      num_add b (num_mul (elem_at c i) (elem_at c i)))"
  by (simp add: cosine_step_def)

lemma cosine_loop_prefix:
  assumes "length c = length e"
  shows "n \<le> length e \<Longrightarrow>
     foldl (cosine_step e c) (Num 0, Num 0, Num 0) [0 ..< n] =
       (dot (take n e) (take n c), dot (take n e) (take n e), dot (take n c) (take n c))"
proof (induction n)
  case 0
  then show ?case by (simp add: dot_def)
next
  case (Suc n)
  then have n: "n < length e" "n < length c" using assms by simp_all
  from Suc have ih: "foldl (cosine_step e c) (Num 0, Num 0, Num 0) [0 ..< n] =
       (dot (take n e) (take n c), dot (take n e) (take n e), dot (take n c) (take n c))"
    by simp
  from n show ?case
    by (simp add: ih cosine_step_triple elem_at_def take_Suc_conv_app_nth dot_snoc)
qed

lemma cosine_formula:
  assumes "length c = length e"
  shows "cosine e c = num_div (dot e c) (num_mul (Math_sqrt (dot e e)) (Math_sqrt (dot c c)))"
  using cosine_loop_prefix [OF assms, of "length e"] assms
  by (simp add: cosine_def)

lemma retrieve_keyword:
  assumes "qe = None \<or> (\<forall>c\<in>set (allChunks ms). rembedding c = [])"
  shows "retrieveRelevantChunks (Some ms) qe q k =
     keywordSearch q (allChunks ms) (case k of None \<Rightarrow> 3 | Some n \<Rightarrow> n)"
  using assms
  by (auto simp: retrieveRelevantChunks_def list_ex_iff split: option.splits)

lemma retrieve_vector:
  assumes "\<exists>c\<in>set (allChunks ms). rembedding c \<noteq> []"
  shows "retrieveRelevantChunks (Some ms) (Some e) q k =
     vectorSearch e (allChunks ms) (case k of None \<Rightarrow> 3 | Some n \<Rightarrow> n)"
  using assms
  by (auto simp: retrieveRelevantChunks_def list_ex_iff split: option.splits)

lemma length_vectorSearch:
  "0 \<le> k \<Longrightarrow> length (vectorSearch e cs k) = min (nat k) (length cs)"
  by (simp add: vectorSearch_def slice0_def length_sort_by_score)








lemma orthogonal_chunks_all:
  "allChunks orthogonal_course =
     [\<lparr>rtext = ''Fourier series'', source = ''notes.pdf'', page = Num 0,
       rembedding = [Num 0, Num 1]\<rparr>,
      \<lparr>rtext = ''Laplace transform'', source = ''notes.pdf'', page = Num 0,
       rembedding = [Num 0, Num 2]\<rparr>]"
  by (simp add: allChunks_def orthogonal_course_def)

lemma orthogonal_cosines:
  "cosine [Num 1, Num 0] [Num 0, Num 1] = Num 0"
  "cosine [Num 1, Num 0] [Num 0, Num 2] = Num 0"
  by (simp_all add: cosine_formula dot_def num_eval cong: let_weak_cong)

lemma orthogonal_scored:
  "map (vector_score [Num 1, Num 0]) (allChunks orthogonal_course) =
     [\<lparr>rtext = ''Fourier series'', source = ''notes.pdf'', page = Num 0,
       rembedding = [Num 0, Num 1], rscore = Num 0\<rparr>,
      \<lparr>rtext = ''Laplace transform'', source = ''notes.pdf'', page = Num 0,
       rembedding = [Num 0, Num 2], rscore = Num 0\<rparr>]"
  by (simp add: orthogonal_chunks_all vector_score_def with_score_def orthogonal_cosines)

lemma comes_after_zero:
  "rscore a = Num 0 \<Longrightarrow> rscore b = Num 0 \<Longrightarrow> \<not> comes_after a b"
  by (simp add: comes_after_def num_sub_def num_gt_def fl_def)

lemma orthogonal_vector:
  "vectorSearch [Num 1, Num 0] (allChunks orthogonal_course) 1 =
     [\<lparr>rtext = ''Fourier series'', source = ''notes.pdf'', page = Num 0,
       rembedding = [Num 0, Num 1], rscore = Num 0\<rparr>]"
  by (simp add: vectorSearch_def orthogonal_scored sort_by_score_def comes_after_zero slice0_def)

lemma laplace_terms: "queryTerms ''laplace'' = [''laplace'']"
  by (simp add: queryTerms_def split_on_def toLowerCase_def lower_char_def is_space_def)

lemma lower_texts:
  "toLowerCase ''Fourier series'' = ''fourier series''"
  "toLowerCase ''Laplace transform'' = ''laplace transform''"
  by (simp_all add: toLowerCase_def lower_char_def char_of_def bit_Suc_0_iff)

lemma laplace_matches:
  "\<not> js_includes ''fourier series'' ''laplace''"
  "js_includes ''laplace transform'' ''laplace''"
  by simp_all

lemma orthogonal_keyword:
  "keywordSearch ''laplace'' (allChunks orthogonal_course) 1 =
     [\<lparr>rtext = ''Laplace transform'', source = ''notes.pdf'', page = Num 0,
       rembedding = [Num 0, Num 2], rscore = Num 1\<rparr>]"
  by (simp add: keywordSearch_def orthogonal_chunks_all laplace_terms keyword_score_def
        with_score_def lower_texts laplace_matches num_gt_def sort_by_score_def slice0_def)

lemma orthogonal_has_embedding:
  "\<exists>c\<in>set (allChunks orthogonal_course). rembedding c \<noteq> []"
  by (simp add: orthogonal_chunks_all)


text \<open>
  C3, as stated, fails.  The query embedding \<open>[1, 0]\<close> is available and both stored
  chunks have embeddings, which are orthogonal to it, so every similarity score is zero.
  For the query \<open>laplace\<close> with \<open>topK = 1\<close> the service returns the embedding-based
  ranking, whose first element is the chunk on Fourier series with the score 0; the
  keyword ranking of the same corpus is the chunk on the Laplace transform.
\<close>

theorem zero_scores_counterexample:
  "map rscore (map (vector_score [Num 1, Num 0]) (allChunks orthogonal_course)) =
     [Num 0, Num 0] \<and>
   retrieveRelevantChunks (Some orthogonal_course) (Some [Num 1, Num 0]) ''laplace'' (Some 1) =
     [\<lparr>rtext = ''Fourier series'', source = ''notes.pdf'', page = Num 0,
       rembedding = [Num 0, Num 1], rscore = Num 0\<rparr>] \<and>
   keywordSearch ''laplace'' (allChunks orthogonal_course) 1 =
     [\<lparr>rtext = ''Laplace transform'', source = ''notes.pdf'', page = Num 0,
       rembedding = [Num 0, Num 2], rscore = Num 1\<rparr>]"
  by (simp add: retrieve_vector [OF orthogonal_has_embedding] orthogonal_vector
        orthogonal_keyword orthogonal_scored)

text \<open>
  C3, amended.  The service ranks by keyword overlap exactly when the query embedding
  is unavailable or no stored chunk has a non-empty embedding.  When the query
  embedding is available and some chunk has a non-empty embedding it returns the
  embedding-based ranking, whatever the scores are: no chunk is left out for a zero
  score, so with the default \<open>topK\<close> the result has three elements, or all chunks when
  there are fewer.  A course that is not found gives the empty result.
\<close>

theorem fallback_condition:
  "((qe = None \<or> (\<forall>c\<in>set (allChunks ms). rembedding c = [])) \<longrightarrow>
      retrieveRelevantChunks (Some ms) qe q k =
        keywordSearch q (allChunks ms) (case k of None \<Rightarrow> 3 | Some n \<Rightarrow> n)) \<and>
   ((\<exists>c\<in>set (allChunks ms). rembedding c \<noteq> []) \<longrightarrow>
      retrieveRelevantChunks (Some ms) (Some e) q k =
        vectorSearch e (allChunks ms) (case k of None \<Rightarrow> 3 | Some n \<Rightarrow> n) \<and>
      length (retrieveRelevantChunks (Some ms) (Some e) q None) =
        min 3 (length (allChunks ms))) \<and>
   retrieveRelevantChunks None qe q k = []"
proof (intro conjI impI)
  assume "qe = None \<or> (\<forall>c\<in>set (allChunks ms). rembedding c = [])"
  then show "retrieveRelevantChunks (Some ms) qe q k =
        keywordSearch q (allChunks ms) (case k of None \<Rightarrow> 3 | Some n \<Rightarrow> n)"
    by (rule retrieve_keyword)
next
  assume "\<exists>c\<in>set (allChunks ms). rembedding c \<noteq> []"
  then show "retrieveRelevantChunks (Some ms) (Some e) q k =
        vectorSearch e (allChunks ms) (case k of None \<Rightarrow> 3 | Some n \<Rightarrow> n)"
    by (rule retrieve_vector)
next
  assume "\<exists>c\<in>set (allChunks ms). rembedding c \<noteq> []"
  then show "length (retrieveRelevantChunks (Some ms) (Some e) q None) =
        min 3 (length (allChunks ms))"
    by (simp add: retrieve_vector length_vectorSearch)
next
  show "retrieveRelevantChunks None qe q k = []"
    by (simp add: retrieveRelevantChunks_def)
qed

theorem fallback_condition_witness:
  "retrieveRelevantChunks (Some orthogonal_course) None ''laplace'' (Some 1) =
     [\<lparr>rtext = ''Laplace transform'', source = ''notes.pdf'', page = Num 0,
       rembedding = [Num 0, Num 2], rscore = Num 1\<rparr>] \<and>
   (\<exists>c\<in>set (allChunks orthogonal_course). rembedding c \<noteq> []) \<and>
   retrieveRelevantChunks (Some orthogonal_course) (Some [Num 1, Num 0]) ''laplace'' (Some 1) =
     [\<lparr>rtext = ''Fourier series'', source = ''notes.pdf'', page = Num 0,
       rembedding = [Num 0, Num 1], rscore = Num 0\<rparr>] \<and>
   length (retrieveRelevantChunks (Some orthogonal_course) (Some [Num 1, Num 0]) ''laplace'' None)
     = 2"
proof -
  note t = fallback_condition [where ms = orthogonal_course and qe = None and q = "''laplace''"
      and k = "Some 1" and e = "[Num 1, Num 0]"]
  from t have a: "retrieveRelevantChunks (Some orthogonal_course) None ''laplace'' (Some 1) =
     [\<lparr>rtext = ''Laplace transform'', source = ''notes.pdf'', page = Num 0,
       rembedding = [Num 0, Num 2], rscore = Num 1\<rparr>]"
    by (simp add: orthogonal_keyword)
  from t orthogonal_has_embedding
  have b: "retrieveRelevantChunks (Some orthogonal_course) (Some [Num 1, Num 0]) ''laplace''
      (Some 1) =
     [\<lparr>rtext = ''Fourier series'', source = ''notes.pdf'', page = Num 0,
       rembedding = [Num 0, Num 1], rscore = Num 0\<rparr>]"
    by (simp add: orthogonal_vector)
  from t orthogonal_has_embedding
  have c: "length (retrieveRelevantChunks (Some orthogonal_course) (Some [Num 1, Num 0])
      ''laplace'' None) = 2"
    by (simp add: orthogonal_chunks_all)
  from a b c orthogonal_has_embedding show ?thesis
    by blast
qed










end
